theory Spec2Isabelle
  imports Complex_Main "HOL-Library.AList"
begin

section \<open>Python values, exceptions and the built-ins the reader calls\<close>

text \<open>
  The reader is dynamically typed: a header is a dict from field names to values that are
  None, a bool, an int, a float, a str, a date, a time or a list of such values. Strings
  are lists of 8-bit characters (the ASCII range of Python's str). A finite float is
  modelled by the exact rational value of its decimal literal; binary rounding, signed
  zero and overflow to infinity are not modelled. The number tokens of the example files
  below denote values that a binary float holds exactly, for which the model and Python
  agree.
\<close>

datatype py_float = Finite rat | PosInf | NegInf | NaN

datatype py_date = PyDate int int int

datatype py_time = PyTime int int int int

datatype pyval =
    PNone
  | PBool bool
  | PInt int
  | PFloat py_float
  | PStr string
  | PDate py_date
  | PTime py_time
  | PList "pyval list"

text \<open>
  Every \<open>raise LVMFormatError(...)\<close> of the source is one constructor of
  \<open>lvm_message\<close>, carrying the values its f-string interpolates.
\<close>

datatype lvm_message =
    Unable_to_find_Separator_header
  | Header_not_found string
  | Header_has_no_option string pyval
  | EOF_before_finished_segment
  | Failed_to_read_column_names
  | Invalid_File_Header string
  | Error_parsing_value_at string
  | Mismatch_between_number_of_Channels "pyval option" string "pyval list" nat
  | Failed_to_parse_segment_header
  | Did_not_find_magic_identifier
  | Error_parsing_key_value_pair "string list"
  | Failed_to_parse_file_header

datatype py_error =
    LVMFormatError lvm_message
  | KeyError string
  | TypeError
  | AttributeError
  | ValueError
  | IndexError
  | StopIteration
  | UnboundLocalError

type_synonym 'a result = "py_error + 'a"

definition bind :: "'a result \<Rightarrow> ('a \<Rightarrow> 'b result) \<Rightarrow> 'b result" where
  "bind m f = (case m of Inl e \<Rightarrow> Inl e | Inr x \<Rightarrow> f x)"

subsection \<open>Strings\<close>

definition TAB :: char where "TAB = CHR 0x09"
definition LF :: char where "LF = CHR 0x0A"
definition CR :: char where "CR = CHR 0x0D"
definition BACKSLASH :: char where "BACKSLASH = CHR 0x5C"

definition startswith :: "string \<Rightarrow> string \<Rightarrow> bool" where
  "startswith s p = (take (length p) s = p)"

text \<open>\<open>s.replace(old, new)\<close>: leftmost, non-overlapping; an empty \<open>old\<close> matches
  before every character and at the end.\<close>

fun replace_nonempty :: "string \<Rightarrow> string \<Rightarrow> string \<Rightarrow> string" where
  "replace_nonempty old new [] = []"
| "replace_nonempty old new (c # cs) =
     (if old \<noteq> [] \<and> startswith (c # cs) old
      then new @ replace_nonempty old new (drop (length old - 1) cs)
      else c # replace_nonempty old new cs)"

definition py_replace :: "string \<Rightarrow> string \<Rightarrow> string \<Rightarrow> string" where
  "py_replace s old new =
     (if old = [] then concat (map (\<lambda>c. new @ [c]) s) @ new
      else replace_nonempty old new s)"

text \<open>\<open>line.replace('\r', '').replace('\n', '')\<close>\<close>

definition strip_newlines :: "string \<Rightarrow> string" where
  "strip_newlines l = py_replace (py_replace l [CR] []) [LF] []"

text \<open>\<open>s.split(sep)\<close> for a non-empty \<open>sep\<close>; the second argument is the field
  collected so far.\<close>

fun split_on :: "string \<Rightarrow> string \<Rightarrow> string \<Rightarrow> string list" where
  "split_on sep cur [] = [cur]"
| "split_on sep cur (c # cs) =
     (if sep \<noteq> [] \<and> startswith (c # cs) sep
      then cur # split_on sep [] (drop (length sep - 1) cs)
      else split_on sep (cur @ [c]) cs)"

definition is_split_space :: "char \<Rightarrow> bool" where
  "is_split_space c = (let n = (of_char c :: nat) in (9 \<le> n \<and> n \<le> 13) \<or> (28 \<le> n \<and> n \<le> 32))"

fun split_whitespace :: "string \<Rightarrow> string \<Rightarrow> string list" where
  "split_whitespace cur [] = (if cur = [] then [] else [cur])"
| "split_whitespace cur (c # cs) =
     (if is_split_space c
      then (if cur = [] then split_whitespace [] cs else cur # split_whitespace [] cs)
      else split_whitespace (cur @ [c]) cs)"

text \<open>\<open>s.split(sep)\<close> with \<open>sep\<close> any value: None splits on runs of whitespace, an
  empty separator raises ValueError, a value that is not a str raises TypeError.\<close>

definition py_split :: "string \<Rightarrow> pyval \<Rightarrow> string list result" where
  "py_split s sep =
     (case sep of
        PStr d \<Rightarrow> (if d = [] then Inl ValueError else Inr (split_on d [] s))
      | PNone \<Rightarrow> Inr (split_whitespace [] s)
      | _ \<Rightarrow> Inl TypeError)"

definition py_startswith :: "string \<Rightarrow> pyval \<Rightarrow> bool result" where
  "py_startswith s p = (case p of PStr d \<Rightarrow> Inr (startswith s d) | _ \<Rightarrow> Inl TypeError)"

text \<open>\<open>needle in s\<close> for two strings.\<close>

fun contains :: "string \<Rightarrow> string \<Rightarrow> bool" where
  "contains [] needle = (needle = [])"
| "contains (c # cs) needle = (startswith (c # cs) needle \<or> contains cs needle)"

definition is_digit :: "char \<Rightarrow> bool" where
  "is_digit c = (let n = (of_char c :: nat) in 48 \<le> n \<and> n \<le> 57)"

definition digit_val :: "char \<Rightarrow> int" where
  "digit_val c = of_char c - 48"

definition int_of_digits :: "string \<Rightarrow> int" where
  "int_of_digits ds = foldl (\<lambda>n c. 10 * n + digit_val c) 0 ds"

definition to_lower :: "char \<Rightarrow> char" where
  "to_lower c = (let n = (of_char c :: nat) in if 65 \<le> n \<and> n \<le> 90 then char_of (n + 32) else c)"

definition to_upper :: "char \<Rightarrow> char" where
  "to_upper c = (let n = (of_char c :: nat) in if 97 \<le> n \<and> n \<le> 122 then char_of (n - 32) else c)"

definition hex_char :: "nat \<Rightarrow> char" where
  "hex_char d = (if d < 10 then char_of (48 + d) else char_of (87 + d))"

text \<open>\<open>hex(n)[2:]\<close>: the lowercase hexadecimal digits of \<open>n\<close>, without padding.\<close>

fun hex_digits :: "nat \<Rightarrow> string" where
  "hex_digits n = (if n < 16 then [hex_char n] else hex_digits (n div 16) @ [hex_char (n mod 16)])"

declare hex_digits.simps [simp del]

subsection \<open>float() and int() on a str\<close>

definition is_space :: "char \<Rightarrow> bool" where
  "is_space c = (let n = (of_char c :: nat) in (9 \<le> n \<and> n \<le> 13) \<or> n = 32)"

definition strip :: "string \<Rightarrow> string" where
  "strip s = rev (dropWhile is_space (rev (dropWhile is_space s)))"

text \<open>An underscore is accepted only between two digits; \<open>prev\<close> is the character
  before the current one.\<close>

fun underscores_ok :: "char option \<Rightarrow> string \<Rightarrow> bool" where
  "underscores_ok prev [] = (prev \<noteq> Some (CHR ''_''))"
| "underscores_ok prev (c # cs) =
     (if c = CHR ''_''
      then (case prev of Some p \<Rightarrow> is_digit p \<and> underscores_ok (Some c) cs | None \<Rightarrow> False)
      else if prev = Some (CHR ''_'') \<and> \<not> is_digit c then False
      else underscores_ok (Some c) cs)"

definition strip_sign :: "string \<Rightarrow> bool \<times> string" where
  "strip_sign s =
     (case s of
        [] \<Rightarrow> (False, [])
      | c # cs \<Rightarrow> if c = CHR ''-'' then (True, cs) else if c = CHR ''+'' then (False, cs) else (False, s))"

definition scale10 :: "int \<Rightarrow> int \<Rightarrow> rat" where
  "scale10 m e = (if 0 \<le> e then of_int m * 10 ^ nat e else of_int m / 10 ^ nat (- e))"

text \<open>The decimal literal after the sign: digits, an optional point and digits (at least
  one digit in all), an optional exponent; nothing may follow.\<close>

definition parse_decimal :: "string \<Rightarrow> rat option" where
  "parse_decimal s =
     (let ip = takeWhile is_digit s; s2 = dropWhile is_digit s;
          has_point = (s2 \<noteq> [] \<and> hd s2 = CHR ''.'');
          fp = (if has_point then takeWhile is_digit (tl s2) else []);
          s3 = (if has_point then dropWhile is_digit (tl s2) else s2);
          m = int_of_digits (ip @ fp)
      in if ip = [] \<and> fp = [] then None
         else if s3 = [] then Some (scale10 m (- int (length fp)))
         else if hd s3 = CHR ''e'' \<or> hd s3 = CHR ''E'' then
           (let (eneg, s4) = strip_sign (tl s3); ed = takeWhile is_digit s4;
                ev = int_of_digits ed
            in if ed = [] \<or> dropWhile is_digit s4 \<noteq> [] then None
               else Some (scale10 m ((if eneg then - ev else ev) - int (length fp))))
         else None)"

definition py_float :: "string \<Rightarrow> py_float option" where
  "py_float s =
     (let t = strip s in
      if \<not> underscores_ok None t then None
      else
        (let (neg, u) = strip_sign (filter (\<lambda>c. c \<noteq> CHR ''_'') t); w = map to_lower u in
         if w = ''inf'' \<or> w = ''infinity'' then Some (if neg then NegInf else PosInf)
         else if w = ''nan'' then Some NaN
         else map_option (\<lambda>r. Finite (if neg then - r else r)) (parse_decimal u)))"

text \<open>\<open>int(s)\<close> in base 10.\<close>

definition py_int :: "string \<Rightarrow> int option" where
  "py_int s =
     (let t = strip s in
      if \<not> underscores_ok None t then None
      else
        (let (neg, u) = strip_sign (filter (\<lambda>c. c \<noteq> CHR ''_'') t) in
         if u = [] \<or> \<not> list_all is_digit u then None
         else Some (if neg then - int_of_digits u else int_of_digits u)))"

text \<open>\<open>f.is_integer()\<close> and \<open>int(f)\<close> (called only when \<open>is_integer\<close> holds).\<close>

definition is_integer :: "py_float \<Rightarrow> bool" where
  "is_integer f = (case f of Finite r \<Rightarrow> of_int \<lfloor>r\<rfloor> = r | _ \<Rightarrow> False)"

definition int_of_float :: "py_float \<Rightarrow> int" where
  "int_of_float f = (case f of Finite r \<Rightarrow> \<lfloor>r\<rfloor> | _ \<Rightarrow> 0)"

subsection \<open>datetime.strptime for the two formats of the reader\<close>

text \<open>
  \<open>strptime\<close> compiles the format into a regular expression, takes its first match
  at the start of the string (alternatives in the order written, with backtracking),
  raises ValueError when there is none or when text remains after it, and then builds
  the date or time, which raises ValueError for a value out of range. A matcher below
  returns its matches in that order, each with the rest of the string.
\<close>

type_synonym 'a matcher = "string \<Rightarrow> ('a \<times> string) list"

definition in_range :: "char \<Rightarrow> int \<Rightarrow> int \<Rightarrow> bool" where
  "in_range c lo hi = (is_digit c \<and> lo \<le> digit_val c \<and> digit_val c \<le> hi)"

text \<open>Two digits, the first in \<open>a..b\<close> and the second in \<open>c..d\<close>; one digit in \<open>a..b\<close>.\<close>

definition two_digits :: "int \<Rightarrow> int \<Rightarrow> int \<Rightarrow> int \<Rightarrow> int matcher" where
  "two_digits a b c d s =
     (case s of
        x # y # r \<Rightarrow> if in_range x a b \<and> in_range y c d then [(10 * digit_val x + digit_val y, r)] else []
      | _ \<Rightarrow> [])"

definition one_digit :: "int \<Rightarrow> int \<Rightarrow> int matcher" where
  "one_digit a b s = (case s of x # r \<Rightarrow> if in_range x a b then [(digit_val x, r)] else [] | _ \<Rightarrow> [])"

definition space_digit :: "int \<Rightarrow> int \<Rightarrow> int matcher" where
  "space_digit a b s =
     (case s of
        x # y # r \<Rightarrow> if x = CHR '' '' \<and> in_range y a b then [(digit_val y, r)] else []
      | _ \<Rightarrow> [])"

definition lit :: "char \<Rightarrow> string \<Rightarrow> string list" where
  "lit c s = (case s of x # r \<Rightarrow> if x = c then [r] else [] | _ \<Rightarrow> [])"

text \<open>\<open>%Y\<close> is \<open>\d\d\d\d\<close>, \<open>%m\<close> is \<open>1[0-2]|0[1-9]|[1-9]\<close>,
  \<open>%d\<close> is \<open>3[0-1]|[1-2]\d|0[1-9]|[1-9]| [1-9]\<close>.\<close>

definition re_Y :: "int matcher" where
  "re_Y s = (if 4 \<le> length s \<and> list_all is_digit (take 4 s) then [(int_of_digits (take 4 s), drop 4 s)] else [])"

definition re_m :: "int matcher" where
  "re_m s = two_digits 1 1 0 2 s @ two_digits 0 0 1 9 s @ one_digit 1 9 s"

definition re_d :: "int matcher" where
  "re_d s = two_digits 3 3 0 1 s @ two_digits 1 2 0 9 s @ two_digits 0 0 1 9 s @ one_digit 1 9 s @ space_digit 1 9 s"

text \<open>\<open>%H\<close> is \<open>2[0-3]|[0-1]\d|\d\<close>, \<open>%M\<close> is \<open>[0-5]\d|\d\<close>,
  \<open>%S\<close> is \<open>6[0-1]|[0-5]\d|\d\<close>, \<open>%f\<close> is \<open>[0-9]{1,6}\<close>.
  \<open>%f\<close> stands last in its format, so only its first (longest) match counts.\<close>

definition re_H :: "int matcher" where
  "re_H s = two_digits 2 2 0 3 s @ two_digits 0 1 0 9 s @ one_digit 0 9 s"

definition re_M :: "int matcher" where
  "re_M s = two_digits 0 5 0 9 s @ one_digit 0 9 s"

definition re_S :: "int matcher" where
  "re_S s = two_digits 6 6 0 1 s @ two_digits 0 5 0 9 s @ one_digit 0 9 s"

definition re_f :: "int matcher" where
  "re_f s =
     (let ds = takeWhile is_digit (take 6 s) in
      if ds = [] then [] else [(int_of_digits ds * 10 ^ (6 - length ds), drop (length ds) s)])"

definition is_leap :: "int \<Rightarrow> bool" where
  "is_leap y = (y mod 4 = 0 \<and> (y mod 100 \<noteq> 0 \<or> y mod 400 = 0))"

definition days_in_month :: "int \<Rightarrow> int \<Rightarrow> int" where
  "days_in_month y m =
     (if m = 2 then (if is_leap y then 29 else 28)
      else if m = 4 \<or> m = 6 \<or> m = 9 \<or> m = 11 then 30 else 31)"

text \<open>\<open>datetime.strptime(s, "%Y/%m/%d").date()\<close>\<close>

definition strptime_date :: "string \<Rightarrow> py_date result" where
  "strptime_date s =
     (case [(y, m, d, r4). (y, r0) \<leftarrow> re_Y s, r1 \<leftarrow> lit (CHR ''/'') r0, (m, r2) \<leftarrow> re_m r1,
                            r3 \<leftarrow> lit (CHR ''/'') r2, (d, r4) \<leftarrow> re_d r3] of
        [] \<Rightarrow> Inl ValueError
      | (y, m, d, r) # _ \<Rightarrow>
          if r \<noteq> [] then Inl ValueError
          else if y < 1 \<or> days_in_month y m < d then Inl ValueError
          else Inr (PyDate y m d))"

definition match_HMS :: "(int \<times> int \<times> int) matcher" where
  "match_HMS s =
     [((h, m, sec), r4). (h, r0) \<leftarrow> re_H s, r1 \<leftarrow> lit (CHR '':'') r0, (m, r2) \<leftarrow> re_M r1,
                         r3 \<leftarrow> lit (CHR '':'') r2, (sec, r4) \<leftarrow> re_S r3]"

text \<open>\<open>datetime.strptime(s, "%H:%M:%S").time()\<close>\<close>

definition strptime_time :: "string \<Rightarrow> py_time result" where
  "strptime_time s =
     (case match_HMS s of
        [] \<Rightarrow> Inl ValueError
      | ((h, m, sec), r) # _ \<Rightarrow>
          if r \<noteq> [] then Inl ValueError
          else if 59 < sec then Inl ValueError
          else Inr (PyTime h m sec 0))"

text \<open>\<open>datetime.strptime(s, "%H:%M:%S.%f").time()\<close>\<close>

definition strptime_time_f :: "string \<Rightarrow> py_time result" where
  "strptime_time_f s =
     (case [(h, m, sec, us, r2). ((h, m, sec), r0) \<leftarrow> match_HMS s, r1 \<leftarrow> lit (CHR ''.'') r0,
                                 (us, r2) \<leftarrow> re_f r1] of
        [] \<Rightarrow> Inl ValueError
      | (h, m, sec, us, r) # _ \<Rightarrow>
          if r \<noteq> [] then Inl ValueError
          else if 59 < sec then Inl ValueError
          else Inr (PyTime h m sec us))"

section \<open>lvm\_format: the header schemas\<close>

text \<open>
  One entry of \<open>FILE_HEADERS\<close> or \<open>SEGMENT_HEADERS\<close>: the keys
  \<open>required\<close>, \<open>default\<close> (absent for a required field), \<open>type\<close> and
  \<open>options\<close> (present only for the type \<open>options\<close>). A schema is an association
  list in the order of the source, which is the order Python iterates a dict in.
\<close>

record field_spec =
  frequired :: bool
  fdefault :: "pyval option"
  ftype :: string
  foptions :: "string list"

type_synonym schema = "(string \<times> field_spec) list"

type_synonym header = "(string \<times> pyval) list"

definition req :: "string \<Rightarrow> field_spec" where
  "req t = \<lparr>frequired = True, fdefault = None, ftype = t, foptions = []\<rparr>"

definition opt :: "pyval \<Rightarrow> string \<Rightarrow> field_spec" where
  "opt d t = \<lparr>frequired = False, fdefault = Some d, ftype = t, foptions = []\<rparr>"

definition END_OF_HEADER :: string where "END_OF_HEADER = ''***End_of_Header***''"
definition FILE_MAGIC_IDENTIFIER :: string where "FILE_MAGIC_IDENTIFIER = ''LabVIEW Measurement''"
definition SPECIAL_BLOCK_START :: string where "SPECIAL_BLOCK_START = ''***Start_Special***''"
definition SPECIAL_BLOCK_END :: string where "SPECIAL_BLOCK_END = ''***End_Special***''"

definition FILE_HEADERS :: schema where
  "FILE_HEADERS =
     [(''Date'', req ''date''),
      (''Description'', opt (PStr []) ''text''),
      (''Multi_Headings'', opt (PBool False) ''bool''),
      (''Operator'', opt (PStr []) ''text''),
      (''Project'', opt (PStr []) ''text''),
      (''Reader_Version'', opt (PStr ''Writer_Version'') ''float''),
      (''Separator'', opt (PStr [TAB]) ''text''),
      (''Decimal_Separator'', opt (PStr '','') ''text''),
      (''Time'', req ''time''),
      (''Time_Pref'', (opt (PStr ''Relative'') ''options'')\<lparr>foptions := [''Absolute'', ''Relative'']\<rparr>),
      (''Writer_Version'', req ''float''),
      (''X_Columns'', (opt (PStr ''One'') ''options'')\<lparr>foptions := [''No'', ''One'', ''Multi'']\<rparr>)]"

definition SEGMENT_HEADERS :: schema where
  "SEGMENT_HEADERS =
     [(''Channels'', req ''integer''),
      (''Date'', req ''date''),
      (''Delta_X'', req ''number''),
      (''Notes'', opt (PStr []) ''text''),
      (''Samples'', req ''integer''),
      (''Test_Name'', opt (PStr []) ''text''),
      (''Test_Numbers'', opt (PStr []) ''text''),
      (''Test_Series'', opt (PStr []) ''text''),
      (''Time'', req ''time''),
      (''UUT_M/N'', opt (PStr []) ''text''),
      (''UUT_Name'', opt (PStr []) ''text''),
      (''UUT_S/N'', opt (PStr []) ''text''),
      (''X0'', req ''number''),
      (''X_Dimension'', opt (PStr ''Time'') ''text''),
      (''X_Unit_Label'', opt (PStr ''Default SI Unit'') ''text''),
      (''Y_Dimension'', opt (PStr ''Electric Potential'') ''text''),
      (''Y_Unit_Label'', opt (PStr ''Default SI Unit'') ''text'')]"

section \<open>lvm\_read\<close>

subsection \<open>Dicts\<close>

text \<open>\<open>d[k]\<close> raises KeyError for a missing key; \<open>d[k] = v\<close> replaces the value of
  a key in place or appends a new key.\<close>

definition getitem :: "header \<Rightarrow> string \<Rightarrow> pyval result" where
  "getitem d k = (case map_of d k of None \<Rightarrow> Inl (KeyError k) | Some v \<Rightarrow> Inr v)"

definition setitem :: "header \<Rightarrow> string \<Rightarrow> pyval \<Rightarrow> header" where
  "setitem d k v = AList.update k v d"

text \<open>\<open>{h: spec[h]['default'] for h in spec if not spec[h]['required']}\<close>\<close>

fun header_defaults :: "schema \<Rightarrow> header result" where
  "header_defaults [] = Inr []"
| "header_defaults ((h, sp) # rest) =
     (if frequired sp then header_defaults rest
      else case fdefault sp of
             None \<Rightarrow> Inl (KeyError ''default'')
           | Some d \<Rightarrow> bind (header_defaults rest) (\<lambda>hs. Inr ((h, d) # hs)))"

subsection \<open>\_lvm\_float and parse\_value\<close>

text \<open>
  \<open>_lvm_float(value, decsep)\<close>: None for an empty token, and None when \<open>float\<close>
  raises ValueError. \<open>value.replace(decsep, '.')\<close> raises TypeError when \<open>decsep\<close> is
  not a str.
\<close>

definition lvm_float :: "string \<Rightarrow> pyval \<Rightarrow> pyval result" where
  "lvm_float val decsep =
     (if val = [] then Inr PNone
      else case decsep of
             PStr d \<Rightarrow> (case py_float (py_replace val d ''.'') of None \<Rightarrow> Inr PNone | Some f \<Rightarrow> Inr (PFloat f))
           | _ \<Rightarrow> Inl TypeError)"

text \<open>The \<open>time\<close> branch: with the decimal separator in the token, the token is split
  at it into exactly two parts (anything else is a ValueError of the unpacking or of
  \<open>split\<close>), the second cut to six characters.\<close>

definition parse_time :: "string \<Rightarrow> pyval \<Rightarrow> pyval result" where
  "parse_time val decsep =
     (case decsep of
        PStr d \<Rightarrow>
          if contains val d then
            (if d = [] then Inl ValueError
             else case split_on d [] val of
                    [t, msec] \<Rightarrow>
                      bind (strptime_time_f (t @ ''.'' @ (if 6 < length msec then take 6 msec else msec)))
                        (\<lambda>x. Inr (PTime x))
                  | _ \<Rightarrow> Inl ValueError)
          else bind (strptime_time val) (\<lambda>x. Inr (PTime x))
      | _ \<Rightarrow> Inl TypeError)"

text \<open>The \<open>text\<close> branch: \<open>sepHex = '\\' + hex(ord(sep))[2:]\<close>, then
  \<open>value.replace(sepHex.upper(), sep).replace(sepHex.lower(), sep)\<close>. \<open>ord\<close> raises
  TypeError unless \<open>sep\<close> is a str of length one.\<close>

definition parse_text :: "string \<Rightarrow> pyval \<Rightarrow> pyval result" where
  "parse_text val sep =
     (case sep of
        PStr d \<Rightarrow>
          if length d \<noteq> 1 then Inl TypeError
          else
            (let sepHex = BACKSLASH # hex_digits (of_char (hd d)) in
             Inr (PStr (py_replace (py_replace val (map to_upper sepHex) d) (map to_lower sepHex) d)))
      | _ \<Rightarrow> Inl TypeError)"

text \<open>
  \<open>parse_value(value, vtype, sep, decsep)\<close>. In the \<open>number\<close> branch the result of
  \<open>_lvm_float\<close> is asked \<open>is_integer()\<close> without a test for None, which raises
  AttributeError on None. In the \<open>bool\<close> branch \<open>raise None\<close> raises TypeError. A type
  tag that no branch names falls off the end of the function, which returns None.
\<close>

definition parse_value :: "string \<Rightarrow> string option \<Rightarrow> pyval \<Rightarrow> pyval \<Rightarrow> pyval result" where
  "parse_value val vtype sep decsep =
     (if vtype = Some ''number'' then
        bind (lvm_float val decsep)
          (\<lambda>data. case data of
                     PFloat f \<Rightarrow> Inr (if is_integer f then PInt (int_of_float f) else PFloat f)
                   | _ \<Rightarrow> Inl AttributeError)
      else if vtype = Some ''integer'' then
        (case py_int val of None \<Rightarrow> Inr PNone | Some n \<Rightarrow> Inr (PInt n))
      else if vtype = Some ''float'' then lvm_float val decsep
      else if vtype = Some ''options'' then Inr (PStr val)
      else if vtype = Some ''text'' then parse_text val sep
      else if vtype = Some ''date'' then bind (strptime_date val) (\<lambda>x. Inr (PDate x))
      else if vtype = Some ''time'' then parse_time val decsep
      else if vtype = Some ''bool'' then
        (if val = ''Yes'' then Inr (PBool True)
         else if val = ''No'' then Inr (PBool False)
         else Inl TypeError)
      else if vtype = None then Inr (PStr [])
      else Inr PNone)"

subsection \<open>validate\_header\<close>

text \<open>\<open>headers[h] not in spec[h]['options']\<close>: the options are strings.\<close>

definition py_in :: "pyval \<Rightarrow> string list \<Rightarrow> bool" where
  "py_in v opts = (case v of PStr s \<Rightarrow> s \<in> set opts | _ \<Rightarrow> False)"

text \<open>
  The \<open>elif\<close> of the loop body: reached when the field is not required, or is required
  and holds a value other than None.
\<close>

definition check_options :: "header \<Rightarrow> string \<Rightarrow> field_spec \<Rightarrow> unit result" where
  "check_options headers h sp =
     (if ftype sp = ''options'' then
        bind (getitem headers h)
          (\<lambda>v. if \<not> py_in v (foptions sp) then Inl (LVMFormatError (Header_has_no_option h v))
                else Inr ())
      else Inr ())"

fun validate_header :: "header \<Rightarrow> schema \<Rightarrow> unit result" where
  "validate_header headers [] = Inr ()"
| "validate_header headers ((h, sp) # rest) =
     bind (if frequired sp then
             bind (getitem headers h)
               (\<lambda>v. if v = PNone then Inl (LVMFormatError (Header_not_found h))
                     else check_options headers h sp)
           else check_options headers h sp)
       (\<lambda>_. validate_header headers rest)"

subsection \<open>get\_separator and skip\_special\_block\<close>

text \<open>
  The iterator \<open>lines\<close> is a list of the lines not yet consumed; a function that
  consumes lines returns the rest. \<open>get_separator\<close> returns the separator, the buffer
  of the lines it passed over, and the rest of the iterator: the line that ends the
  search is consumed and is not put into the buffer. \<open>line[len('Separator')]\<close> raises
  IndexError on a line that is the word alone.
\<close>

definition schema_default :: "schema \<Rightarrow> string \<Rightarrow> pyval result" where
  "schema_default spec h =
     (case map_of spec h of
        None \<Rightarrow> Inl (KeyError h)
      | Some sp \<Rightarrow> (case fdefault sp of None \<Rightarrow> Inl (KeyError ''default'') | Some d \<Rightarrow> Inr d))"

fun get_separator_loop :: "string list \<Rightarrow> string list \<Rightarrow> (pyval \<times> string list \<times> string list) result" where
  "get_separator_loop buffer [] = Inl (LVMFormatError Unable_to_find_Separator_header)"
| "get_separator_loop buffer (line # lines) =
     (if startswith line ''Separator'' then
        (if length ''Separator'' < length line
         then Inr (PStr [line ! length ''Separator''], buffer, lines)
         else Inl IndexError)
      else if startswith line END_OF_HEADER then
        bind (schema_default FILE_HEADERS ''Separator'') (\<lambda>d. Inr (d, buffer, lines))
      else get_separator_loop (buffer @ [line]) lines)"

definition get_separator :: "string list \<Rightarrow> (pyval \<times> string list \<times> string list) result" where
  "get_separator lines = get_separator_loop [] lines"

text \<open>\<open>skip_special_block\<close> consumes lines up to and including the first one that
  starts with the end marker, or all of them.\<close>

fun skip_special_block :: "string list \<Rightarrow> string list" where
  "skip_special_block [] = []"
| "skip_special_block (line # lines) =
     (if startswith line SPECIAL_BLOCK_END then lines else skip_special_block lines)"

lemma length_skip_special_block: "length (skip_special_block ls) \<le> length ls"
  by (induction ls) auto

subsection \<open>read\_file\_header\<close>

text \<open>
  The body of a \<open>for line in lines\<close> loop either goes on to the next line with a new
  state (also by \<open>continue\<close>), returns from the function, or raises.
\<close>

datatype ('s, 'r) loop_step = Next 's | Return 'r | Raise py_error

text \<open>The body of the loop of \<open>read_file_header\<close> for the line \<open>l\<close>, with \<open>lines\<close> the
  lines the generator \<open>next_line\<close> still has to yield after it.\<close>

definition file_header_line ::
  "pyval \<Rightarrow> header \<Rightarrow> string \<Rightarrow> string list
     \<Rightarrow> (header \<times> string list, header \<times> string list) loop_step" where
  "file_header_line separator file_header l lines =
     (let line = strip_newlines l in
      if startswith line END_OF_HEADER then
        (case validate_header file_header FILE_HEADERS of
           Inl e \<Rightarrow> Raise e
         | Inr _ \<Rightarrow> Return (setitem file_header ''Separator'' separator, lines))
      else
        (case py_startswith line separator of
           Inl e \<Rightarrow> Raise e
         | Inr skip \<Rightarrow>
             if skip then Next (file_header, lines)
             else if startswith line SPECIAL_BLOCK_START then
               Next (file_header, skip_special_block lines)
             else
               (case py_split line separator of
                  Inl e \<Rightarrow> Raise e
                | Inr line_sp \<Rightarrow>
                    if length line_sp \<noteq> 2 then Raise (LVMFormatError (Error_parsing_key_value_pair line_sp))
                    else
                      (let key = line_sp ! 0; val = line_sp ! 1 in
                       case map_of FILE_HEADERS key of
                         None \<Rightarrow> Raise (LVMFormatError (Invalid_File_Header key))
                       | Some sp \<Rightarrow>
                           (case bind (getitem file_header ''Decimal_Separator'')
                                   (parse_value val (Some (ftype sp)) separator) of
                              Inl e \<Rightarrow> Raise e
                            | Inr data \<Rightarrow>
                                if data = PNone then Raise (LVMFormatError (Error_parsing_value_at line))
                                else Next (setitem file_header key data, lines))))))"

lemma file_header_line_Next_length:
  "file_header_line separator file_header l lines = Next (fh, rest) \<Longrightarrow> length rest \<le> length lines"
  unfolding file_header_line_def Let_def
  by (auto simp: length_skip_special_block split: if_splits sum.splits option.splits)

text \<open>The loop itself; running out of lines is the \<open>raise\<close> after the loop.\<close>

function read_file_header_loop :: "pyval \<Rightarrow> header \<Rightarrow> string list \<Rightarrow> (header \<times> string list) result" where
  "read_file_header_loop separator file_header [] = Inl (LVMFormatError Failed_to_parse_file_header)"
| "read_file_header_loop separator file_header (l # lines) =
     (case file_header_line separator file_header l lines of
        Raise e \<Rightarrow> Inl e
      | Return x \<Rightarrow> Inr x
      | Next (fh, rest) \<Rightarrow> read_file_header_loop separator fh rest)"
  by pat_completeness auto
termination
  by (relation "measure (\<lambda>(separator, file_header, lines). length lines)")
     (auto simp: le_imp_less_Suc dest: file_header_line_Next_length)

text \<open>
  \<open>read_file_header\<close>. The generator \<open>next_line\<close> yields the buffer and then the rest
  of the iterator, so the loop runs over \<open>buffer @ rest\<close>. When the loop returns with
  more lines left than \<open>rest\<close> holds, it stopped inside the buffer and the iterator
  still stands at \<open>rest\<close>; otherwise the lines left are what the iterator still holds.
\<close>

definition read_file_header :: "string list \<Rightarrow> (header \<times> string list) result" where
  "read_file_header lines =
     bind (get_separator lines) (\<lambda>(separator, buffer, rest).
     bind (header_defaults FILE_HEADERS) (\<lambda>file_header.
       case buffer @ rest of
         [] \<Rightarrow> Inl StopIteration
       | identifier # stream \<Rightarrow>
           if \<not> startswith identifier FILE_MAGIC_IDENTIFIER
           then Inl (LVMFormatError Did_not_find_magic_identifier)
           else bind (read_file_header_loop separator file_header stream)
                  (\<lambda>(fh, remaining).
                     Inr (fh, if length remaining \<le> length rest then remaining else rest))))"

subsection \<open>read\_segment\_header\<close>

text \<open>\<open>len(data) == seg_header['Channels']\<close>: an int equals an int, a bool or a float
  of the same value, and no other value.\<close>

definition py_eq_int :: "int \<Rightarrow> pyval \<Rightarrow> bool" where
  "py_eq_int n v =
     (case v of
        PInt m \<Rightarrow> n = m
      | PBool b \<Rightarrow> n = (if b then 1 else 0)
      | PFloat f \<Rightarrow> (case f of Finite r \<Rightarrow> of_int n = r | _ \<Rightarrow> False)
      | _ \<Rightarrow> False)"

text \<open>The loop over the value tokens of a line: every token other than the empty one is
  coerced and appended to \<open>data\<close>, whatever the coercion returns.\<close>

fun parse_values :: "header \<Rightarrow> string list \<Rightarrow> string option \<Rightarrow> pyval list result" where
  "parse_values file_header [] vtype = Inr []"
| "parse_values file_header (v # vs) vtype =
     (if v \<noteq> [] then
        bind (getitem file_header ''Separator'') (\<lambda>sep.
        bind (getitem file_header ''Decimal_Separator'') (\<lambda>decsep.
        bind (parse_value v vtype sep decsep) (\<lambda>d.
        bind (parse_values file_header vs vtype) (\<lambda>ds. Inr (d # ds)))))
      else parse_values file_header vs vtype)"

text \<open>The \<open>if not data\<close> chain that follows: the new segment header, or the error.\<close>

definition store_values :: "header \<Rightarrow> string \<Rightarrow> pyval list \<Rightarrow> string \<Rightarrow> header result" where
  "store_values seg_header key data line =
     (if data = [] then Inl (LVMFormatError (Error_parsing_value_at line))
      else if length data = 1 then Inr (setitem seg_header key (data ! 0))
      else if (case map_of seg_header ''Channels'' of
                 None \<Rightarrow> False
               | Some ch \<Rightarrow> py_eq_int (int (length data)) ch)
      then Inr (setitem seg_header key (PList data))
      else Inl (LVMFormatError
                 (Mismatch_between_number_of_Channels (map_of seg_header ''Channels'') key data
                    (length data))))"

text \<open>The return at the end-of-header marker: validation, then the next line as the
  column names (\<open>next(lines)\<close> raises StopIteration when there is none).\<close>

definition finish_segment_header ::
  "header \<Rightarrow> header \<Rightarrow> string list \<Rightarrow> (header \<times> string list) result" where
  "finish_segment_header file_header seg_header lines =
     bind (validate_header seg_header SEGMENT_HEADERS) (\<lambda>_.
       case lines of
         [] \<Rightarrow> Inl StopIteration
       | c # rest \<Rightarrow>
           (let columnNames = strip_newlines c in
            if \<not> startswith columnNames ''X_Value'' then Inl (LVMFormatError Failed_to_read_column_names)
            else
              bind (getitem file_header ''Separator'') (\<lambda>sep.
              bind (py_split columnNames sep) (\<lambda>columns.
                Inr (setitem (setitem seg_header ''Columns'' (PList (map PStr columns)))
                       ''Y_Labels''
                       (PList (map PStr (filter (\<lambda>c. c \<notin> set [''X_Value'', ''Comment'']) columns))),
                     rest)))))"

text \<open>The body of the loop of \<open>read_segment_header\<close> for the line \<open>l\<close>. An empty list
  of tokens (a split on whitespace) cannot be unpacked into \<open>key, *values\<close>, which raises
  ValueError.\<close>

definition segment_header_line ::
  "header \<Rightarrow> header \<Rightarrow> string \<Rightarrow> string list
     \<Rightarrow> (header \<times> string list, header option \<times> string list) loop_step" where
  "segment_header_line file_header seg_header l lines =
     (let line = strip_newlines l in
      if startswith line END_OF_HEADER then
        (case finish_segment_header file_header seg_header lines of
           Inl e \<Rightarrow> Raise e
         | Inr (sh, rest) \<Rightarrow> Return (Some sh, rest))
      else
        (case bind (getitem file_header ''Separator'') (py_startswith line) of
           Inl e \<Rightarrow> Raise e
         | Inr skip \<Rightarrow>
             if skip \<or> line = [] then Next (seg_header, lines)
             else if startswith line SPECIAL_BLOCK_START then
               Next (seg_header, skip_special_block lines)
             else
               (case bind (getitem file_header ''Separator'') (py_split line) of
                  Inl e \<Rightarrow> Raise e
                | Inr [] \<Rightarrow> Raise ValueError
                | Inr (key # vals) \<Rightarrow>
                    (case map_of SEGMENT_HEADERS key of
                       None \<Rightarrow> Raise (LVMFormatError (Invalid_File_Header key))
                     | Some sp \<Rightarrow>
                         (case bind (parse_values file_header vals (Some (ftype sp)))
                                 (\<lambda>data. store_values seg_header key data line) of
                            Inl e \<Rightarrow> Raise e
                          | Inr sh \<Rightarrow> Next (sh, lines))))))"

lemma segment_header_line_Next_length:
  "segment_header_line file_header seg_header l lines = Next (sh, rest) \<Longrightarrow> length rest \<le> length lines"
  unfolding segment_header_line_def Let_def
  by (auto simp: length_skip_special_block split: if_splits sum.splits option.splits list.splits prod.splits)

text \<open>The loop. \<open>seg_started\<close> is set to False before the loop and the body never assigns
  it; it is tested when the lines run out.\<close>

function read_segment_header_loop ::
  "bool \<Rightarrow> header \<Rightarrow> header \<Rightarrow> string list \<Rightarrow> (header option \<times> string list) result" where
  "read_segment_header_loop seg_started file_header seg_header [] =
     (if \<not> seg_started then Inr (None, [])
      else Inl (LVMFormatError Failed_to_parse_segment_header))"
| "read_segment_header_loop seg_started file_header seg_header (l # lines) =
     (case segment_header_line file_header seg_header l lines of
        Raise e \<Rightarrow> Inl e
      | Return x \<Rightarrow> Inr x
      | Next (sh, rest) \<Rightarrow> read_segment_header_loop seg_started file_header sh rest)"
  by pat_completeness auto
termination
  by (relation "measure (\<lambda>(seg_started, file_header, seg_header, lines). length lines)")
     (auto simp: le_imp_less_Suc dest: segment_header_line_Next_length)

definition read_segment_header :: "string list \<Rightarrow> header \<Rightarrow> (header option \<times> string list) result" where
  "read_segment_header lines file_header =
     bind (header_defaults SEGMENT_HEADERS) (\<lambda>seg_header.
       read_segment_header_loop False file_header seg_header lines)"

subsection \<open>Numbers, indexing and iteration\<close>

text \<open>
  The arithmetic of \<open>x0[i] + seg_header['Delta_X'][i] * sample\<close>, the comparison of
  \<open>sample\<close> with \<open>max_samples\<close>, \<open>max\<close>, \<open>range\<close>, subscripts and iteration, on the values
  of the model. A bool counts as the int 0 or 1.
\<close>

definition as_int :: "pyval \<Rightarrow> int option" where
  "as_int v = (case v of PInt n \<Rightarrow> Some n | PBool b \<Rightarrow> Some (if b then 1 else 0) | _ \<Rightarrow> None)"

definition as_float :: "pyval \<Rightarrow> py_float option" where
  "as_float v =
     (case v of
        PFloat f \<Rightarrow> Some f
      | _ \<Rightarrow> map_option (\<lambda>n. Finite (of_int n)) (as_int v))"

fun float_add :: "py_float \<Rightarrow> py_float \<Rightarrow> py_float" where
  "float_add (Finite a) (Finite b) = Finite (a + b)"
| "float_add NaN _ = NaN"
| "float_add _ NaN = NaN"
| "float_add PosInf NegInf = NaN"
| "float_add NegInf PosInf = NaN"
| "float_add PosInf _ = PosInf"
| "float_add _ PosInf = PosInf"
| "float_add NegInf _ = NegInf"
| "float_add _ NegInf = NegInf"

definition float_sign :: "py_float \<Rightarrow> int" where
  "float_sign f =
     (case f of
        Finite r \<Rightarrow> (if r < 0 then - 1 else if r = 0 then 0 else 1)
      | PosInf \<Rightarrow> 1
      | NegInf \<Rightarrow> - 1
      | NaN \<Rightarrow> 0)"

fun float_mul :: "py_float \<Rightarrow> py_float \<Rightarrow> py_float" where
  "float_mul (Finite a) (Finite b) = Finite (a * b)"
| "float_mul NaN _ = NaN"
| "float_mul _ NaN = NaN"
| "float_mul a b =
     (let s = float_sign a * float_sign b in
      if s = 0 then NaN else if 0 < s then PosInf else NegInf)"

definition float_less :: "py_float \<Rightarrow> py_float \<Rightarrow> bool" where
  "float_less a b =
     (case (a, b) of
        (NaN, _) \<Rightarrow> False
      | (_, NaN) \<Rightarrow> False
      | (Finite x, Finite y) \<Rightarrow> x < y
      | (NegInf, NegInf) \<Rightarrow> False
      | (NegInf, _) \<Rightarrow> True
      | (_, PosInf) \<Rightarrow> (a \<noteq> PosInf)
      | _ \<Rightarrow> False)"

text \<open>\<open>a + b\<close>: numbers add; two strings and two lists concatenate; anything else raises
  TypeError.\<close>

definition py_add :: "pyval \<Rightarrow> pyval \<Rightarrow> pyval result" where
  "py_add a b =
     (case (as_int a, as_int b) of
        (Some m, Some n) \<Rightarrow> Inr (PInt (m + n))
      | _ \<Rightarrow>
          (case (as_float a, as_float b) of
             (Some f, Some g) \<Rightarrow> Inr (PFloat (float_add f g))
           | _ \<Rightarrow>
               (case (a, b) of
                  (PStr s, PStr t) \<Rightarrow> Inr (PStr (s @ t))
                | (PList s, PList t) \<Rightarrow> Inr (PList (s @ t))
                | _ \<Rightarrow> Inl TypeError)))"

text \<open>\<open>a * b\<close>: numbers multiply; a string or a list is repeated by an int; anything else
  raises TypeError.\<close>

definition py_mul :: "pyval \<Rightarrow> pyval \<Rightarrow> pyval result" where
  "py_mul a b =
     (case (as_int a, as_int b) of
        (Some m, Some n) \<Rightarrow> Inr (PInt (m * n))
      | _ \<Rightarrow>
          (case (as_float a, as_float b) of
             (Some f, Some g) \<Rightarrow> Inr (PFloat (float_mul f g))
           | _ \<Rightarrow>
               (case (a, as_int b) of
                  (PStr s, Some n) \<Rightarrow> Inr (PStr (concat (replicate (nat n) s)))
                | (PList s, Some n) \<Rightarrow> Inr (PList (concat (replicate (nat n) s)))
                | _ \<Rightarrow>
                    (case (as_int a, b) of
                       (Some n, PStr s) \<Rightarrow> Inr (PStr (concat (replicate (nat n) s)))
                     | (Some n, PList s) \<Rightarrow> Inr (PList (concat (replicate (nat n) s)))
                     | _ \<Rightarrow> Inl TypeError))))"

text \<open>\<open>sample < max_samples\<close> for the int \<open>sample\<close>; TypeError when the other side is
  not a number.\<close>

definition py_int_less :: "int \<Rightarrow> pyval \<Rightarrow> bool result" where
  "py_int_less n v =
     (case as_int v of
        Some m \<Rightarrow> Inr (n < m)
      | None \<Rightarrow> (case as_float v of Some f \<Rightarrow> Inr (float_less (Finite (of_int n)) f) | None \<Rightarrow> Inl TypeError))"

text \<open>\<open>iter(v)\<close>: the elements of a list, the characters of a str; TypeError otherwise.\<close>

definition py_iter :: "pyval \<Rightarrow> pyval list result" where
  "py_iter v =
     (case v of
        PList xs \<Rightarrow> Inr xs
      | PStr s \<Rightarrow> Inr (map (\<lambda>c. PStr [c]) s)
      | _ \<Rightarrow> Inl TypeError)"

text \<open>\<open>v[i]\<close> for \<open>i\<close> from \<open>range\<close>, so not negative.\<close>

definition py_index :: "pyval \<Rightarrow> nat \<Rightarrow> pyval result" where
  "py_index v i =
     (case v of
        PList xs \<Rightarrow> (if i < length xs then Inr (xs ! i) else Inl IndexError)
      | PStr s \<Rightarrow> (if i < length s then Inr (PStr [s ! i]) else Inl IndexError)
      | _ \<Rightarrow> Inl TypeError)"

text \<open>\<open>xs[i]\<close> on a list of the model, with Python's negative indices.\<close>

definition list_get :: "'a list \<Rightarrow> int \<Rightarrow> 'a result" where
  "list_get xs i =
     (if i < - int (length xs) \<or> int (length xs) \<le> i then Inl IndexError
      else if i < 0 then Inr (xs ! nat (int (length xs) + i))
      else Inr (xs ! nat i))"

text \<open>
  \<open>max(samples)\<close> as the loop of \<open>read_segment_data\<close> sees it. \<open>max\<close> raises TypeError
  for a value it cannot iterate and ValueError for an empty one, and keeps the first
  element unless a later one is greater. With an element that is not a number, either a
  comparison inside \<open>max\<close> raises TypeError, or \<open>max\<close> returns a value that is not a
  number and \<open>sample < max_samples\<close>, evaluated next, raises TypeError: the model raises
  it in \<open>max\<close>.
\<close>

definition num_greater :: "pyval \<Rightarrow> pyval \<Rightarrow> bool" where
  "num_greater a b =
     (case (as_int a, as_int b) of
        (Some m, Some n) \<Rightarrow> n < m
      | _ \<Rightarrow> (case (as_float a, as_float b) of (Some f, Some g) \<Rightarrow> float_less g f | _ \<Rightarrow> False))"

definition py_max :: "pyval \<Rightarrow> pyval result" where
  "py_max v =
     bind (py_iter v) (\<lambda>xs.
       case xs of
         [] \<Rightarrow> Inl ValueError
       | x # rest \<Rightarrow>
           if list_all (\<lambda>y. as_float y \<noteq> None) xs
           then Inr (foldl (\<lambda>m y. if num_greater y m then y else m) x rest)
           else Inl TypeError)"

text \<open>The truth value of a value, as \<open>if\<close> and \<open>or\<close> take it.\<close>

definition py_truthy :: "pyval \<Rightarrow> bool" where
  "py_truthy v =
     (case v of
        PNone \<Rightarrow> False
      | PBool b \<Rightarrow> b
      | PInt n \<Rightarrow> n \<noteq> 0
      | PFloat f \<Rightarrow> f \<noteq> Finite 0
      | PStr s \<Rightarrow> s \<noteq> []
      | PList xs \<Rightarrow> xs \<noteq> []
      | _ \<Rightarrow> True)"

subsection \<open>read\_segment\_data\<close>

text \<open>\<open>seg_data\<close>: for every channel the list of its X values and the list of its Y
  values.\<close>

type_synonym seg_data = "(pyval list \<times> pyval list) list"

text \<open>
  The assignments to \<open>x_value\<close> and \<open>y_value\<close> in the body of \<open>for i in range(...)\<close>.
  \<open>x_one\<close> is the \<open>x_value\<close> assigned before the loop when \<open>X_Columns\<close> is \<open>One\<close>. When
  \<open>X_Columns\<close> is none of the three words, \<open>y_value\<close> is never assigned and its test
  raises UnboundLocalError.
\<close>

definition channel_values ::
  "header \<Rightarrow> pyval \<Rightarrow> pyval \<Rightarrow> pyval \<Rightarrow> int \<Rightarrow> string list \<Rightarrow> pyval \<Rightarrow> nat
     \<Rightarrow> (pyval \<times> pyval) result" where
  "channel_values seg_header x_columns decsep x0 sample vals x_one i =
     (if x_columns = PStr ''One'' then
        bind (list_get vals (int i + 1)) (\<lambda>t.
        bind (lvm_float t decsep) (\<lambda>y_value. Inr (x_one, y_value)))
      else if x_columns = PStr ''Multi'' then
        bind (list_get vals (int i * 2)) (\<lambda>t.
        bind (lvm_float t decsep) (\<lambda>x_value.
        bind (list_get vals (int i * 2 + 1)) (\<lambda>u.
        bind (lvm_float u decsep) (\<lambda>y_value. Inr (x_value, y_value)))))
      else if x_columns = PStr ''No'' then
        bind (py_index x0 i) (\<lambda>a.
        bind (getitem seg_header ''Delta_X'') (\<lambda>delta_x.
        bind (py_index delta_x i) (\<lambda>d.
        bind (py_mul d (PInt sample)) (\<lambda>m.
        bind (py_add a m) (\<lambda>x_value.
        bind (list_get vals (int i + 1)) (\<lambda>t.
        bind (lvm_float t decsep) (\<lambda>y_value. Inr (x_value, y_value))))))))
      else Inl UnboundLocalError)"

text \<open>The loop over the channels of one row: a channel whose Y value is None gets
  neither value; any other channel gets both.\<close>

fun channels_loop :: "(nat \<Rightarrow> (pyval \<times> pyval) result) \<Rightarrow> nat list \<Rightarrow> seg_data \<Rightarrow> seg_data result" where
  "channels_loop f [] seg_data = Inr seg_data"
| "channels_loop f (i # is) seg_data =
     bind (f i) (\<lambda>(x_value, y_value).
       channels_loop f is
         (if y_value = PNone then seg_data
          else seg_data[i := (fst (seg_data ! i) @ [x_value], snd (seg_data ! i) @ [y_value])]))"

text \<open>The body of the \<open>while\<close> loop up to the comment: one row of the table.\<close>

definition read_row ::
  "header \<Rightarrow> header \<Rightarrow> pyval \<Rightarrow> pyval \<Rightarrow> pyval \<Rightarrow> int \<Rightarrow> string
     \<Rightarrow> seg_data \<times> string list \<Rightarrow> (seg_data \<times> string list) result" where
  "read_row file_header seg_header x_columns decsep x0 sample l st =
     (let line = strip_newlines l in
      bind (getitem file_header ''Separator'') (\<lambda>sep.
      bind (py_split line sep) (\<lambda>vals.
      bind (if x_columns = PStr ''One''
            then bind (list_get vals 0) (\<lambda>t. lvm_float t decsep) else Inr PNone) (\<lambda>x_one.
      bind (getitem seg_header ''Channels'') (\<lambda>channels.
      case as_int channels of
        None \<Rightarrow> Inl TypeError
      | Some n \<Rightarrow>
          (let columns = (if x_columns = PStr ''Multi'' then n * 2 else n + 1) in
           bind (channels_loop (channel_values seg_header x_columns decsep x0 sample vals x_one)
                   [0 ..< nat n] (fst st)) (\<lambda>seg_data.
           bind (if columns < int (length vals) then list_get vals columns else Inr []) (\<lambda>c.
             Inr (seg_data, snd st @ [c])))))))))"

text \<open>
  The \<open>while\<close> loop and the test after it. The first argument is the body; the list
  is the current line followed by the lines not yet read, and is empty when \<open>line\<close> is
  None. The line that ends the loop has been read and is not given back.
  \<open>end_of_rows\<close> is \<open>line in ['\n', '\r\n', '']\<close>.
\<close>

definition end_of_rows :: "string \<Rightarrow> bool" where
  "end_of_rows line = (line \<in> set [[LF], [CR, LF], []])"

fun rows_loop ::
  "(int \<Rightarrow> string \<Rightarrow> 's \<Rightarrow> 's result) \<Rightarrow> pyval \<Rightarrow> int \<Rightarrow> string list \<Rightarrow> 's
     \<Rightarrow> ('s \<times> string list) result" where
  "rows_loop row max_samples sample [] st =
     (case py_int_less sample max_samples of
        Inl e \<Rightarrow> Inl e
      | Inr _ \<Rightarrow>
          if \<not> py_eq_int sample max_samples then Inl (LVMFormatError EOF_before_finished_segment)
          else Inr (st, []))"
| "rows_loop row max_samples sample (line # rest) st =
     (case py_int_less sample max_samples of
        Inl e \<Rightarrow> Inl e
      | Inr go_on \<Rightarrow>
          if go_on \<and> \<not> end_of_rows line then
            (case row sample line st of
               Inl e \<Rightarrow> Inl e
             | Inr st' \<Rightarrow> rows_loop row max_samples (sample + 1) rest st')
          else Inr (st, rest))"

text \<open>\<open>read_segment_data(lines, file_header, seg_header, x0)\<close>; the result None stands
  for the pair \<open>(None, None)\<close>. The last loop of the source rebinds its loop variable
  and changes nothing.\<close>

definition read_segment_data ::
  "string list \<Rightarrow> header \<Rightarrow> header \<Rightarrow> pyval
     \<Rightarrow> ((seg_data \<times> string list) option \<times> string list) result" where
  "read_segment_data lines file_header seg_header x0 =
     bind (getitem seg_header ''Samples'') (\<lambda>samples.
     bind (getitem file_header ''X_Columns'') (\<lambda>x_columns.
     bind (getitem file_header ''Decimal_Separator'') (\<lambda>decsep.
     bind (getitem seg_header ''Channels'') (\<lambda>channels.
     case as_int channels of
       None \<Rightarrow> Inl TypeError
     | Some n \<Rightarrow>
         bind (if x0 = PNone then getitem seg_header ''X0'' else Inr x0) (\<lambda>x0.
           if lines = [] then Inr (None, [])
           else
             bind (py_max samples) (\<lambda>max_samples.
             bind (rows_loop (read_row file_header seg_header x_columns decsep x0)
                     max_samples 0 lines (replicate (nat n) ([], []), [])) (\<lambda>(st, rest).
               Inr (Some st, rest))))))))"

subsection \<open>read\_segment and read\_lines\<close>

text \<open>The dict of a segment, with its keys \<open>header\<close>, \<open>data\<close> and \<open>comments\<close>, and the
  dict \<open>lvm_data\<close> that \<open>read_lines\<close> returns, with its keys \<open>file_header\<close> and
  \<open>segments\<close>.\<close>

record segment =
  segment_header :: header
  segment_data :: seg_data
  segment_comments :: "string list"

record lvm_data =
  lvm_file_header :: header
  lvm_segments :: "segment list"

definition read_segment ::
  "string list \<Rightarrow> header \<Rightarrow> header option \<Rightarrow> pyval \<Rightarrow> (segment option \<times> string list) result" where
  "read_segment lines file_header seg_header x0 =
     bind (case seg_header of
             None \<Rightarrow> Inr True
           | Some _ \<Rightarrow> bind (getitem file_header ''Multi_Headings'') (\<lambda>m. Inr (py_truthy m))) (\<lambda>fresh.
     bind (if fresh then read_segment_header lines file_header else Inr (seg_header, lines))
       (\<lambda>(seg_header, lines).
          case seg_header of
            None \<Rightarrow> Inr (None, lines)
          | Some sh \<Rightarrow>
              bind (read_segment_data lines file_header sh x0) (\<lambda>(d, lines).
                case d of
                  None \<Rightarrow> Inr (None, lines)
                | Some (seg_data, cmts) \<Rightarrow>
                    Inr (Some \<lparr>segment_header = sh, segment_data = seg_data, segment_comments = cmts\<rparr>, lines))))"

text \<open>\<open>x_final\<close>: for every channel paired with an element of the header's \<open>X0\<close>, the
  last X value of the channel, or that element when the channel has no X value.\<close>

definition x_final :: "segment \<Rightarrow> pyval result" where
  "x_final seg =
     bind (getitem (segment_header seg) ''X0'') (\<lambda>x0.
     bind (py_iter x0) (\<lambda>x0s.
       Inr (PList (map (\<lambda>(ch, x0). if fst ch \<noteq> [] then last (fst ch) else x0)
                     (zip (segment_data seg) x0s)))))"

text \<open>Every call of \<open>read_segment\<close> that returns a segment has consumed a line: the
  \<open>while\<close> loop of \<open>read_lines\<close> ends.\<close>

lemma rows_loop_consumes:
  "rows_loop row m s ls st = Inr (st', rest) \<Longrightarrow> length rest \<le> length ls - 1"
proof (induction ls arbitrary: s st)
  case Nil
  then show ?case by (auto split: sum.splits if_splits)
next
  case (Cons l ls)
  from Cons.prems show ?case
    by (auto split: sum.splits if_splits dest!: Cons.IH)
qed

lemma read_segment_data_consumes:
  assumes "read_segment_data lines file_header seg_header x0 = Inr (Some st, rest)"
  shows "length rest < length lines"
proof -
  from assms have ne: "lines \<noteq> []"
    and "\<exists>row m st0. rows_loop row m 0 lines st0 = Inr (st, rest)"
    unfolding read_segment_data_def
    by (auto simp: bind_def split: sum.splits option.splits if_splits)
  then have "length rest \<le> length lines - 1"
    by (blast dest: rows_loop_consumes)
  with ne show ?thesis by (cases lines) auto
qed

lemma segment_header_line_Return_length:
  "segment_header_line file_header seg_header l lines = Return (x, rest) \<Longrightarrow> length rest \<le> length lines"
  unfolding segment_header_line_def finish_segment_header_def Let_def
  by (auto simp: bind_def split: if_splits sum.splits option.splits list.splits prod.splits)

lemma read_segment_header_loop_length:
  "read_segment_header_loop b file_header seg_header lines = Inr (x, rest) \<Longrightarrow> length rest \<le> length lines"
proof (induction b file_header seg_header lines rule: read_segment_header_loop.induct)
  case (1 seg_started file_header seg_header)
  then show ?case by (simp split: if_splits)
next
  case (2 seg_started file_header seg_header l lines)
  show ?case
  proof (cases "segment_header_line file_header seg_header l lines")
    case (Next s)
    obtain sh r where s: "s = (sh, r)" by (cases s)
    from "2.prems" Next s have "read_segment_header_loop seg_started file_header sh r = Inr (x, rest)"
      by simp
    from "2.IH" [OF Next s [symmetric] this] segment_header_line_Next_length [OF Next [unfolded s]]
    show ?thesis by simp
  next
    case (Return y)
    with "2.prems" have "segment_header_line file_header seg_header l lines = Return (x, rest)"
      by simp
    from segment_header_line_Return_length [OF this] show ?thesis by simp
  next
    case (Raise e)
    with "2.prems" show ?thesis by simp
  qed
qed

lemma read_segment_consumes:
  assumes "read_segment lines file_header seg_header x0 = Inr (Some seg, rest)"
  shows "length rest < length lines"
proof -
  from assms obtain sh mid st where
    mid: "length mid \<le> length lines"
    and "read_segment_data mid file_header sh x0 = Inr (Some st, rest)"
    unfolding read_segment_def read_segment_header_def
    by (auto simp: bind_def split: sum.splits option.splits if_splits prod.splits
             dest: read_segment_header_loop_length)
  from read_segment_data_consumes [OF this(2)] mid show ?thesis by simp
qed

text \<open>The \<open>while segment != None\<close> loop of \<open>read_lines\<close>, entered with a segment: the
  list of the segments appended from this one on.\<close>

function segments_loop :: "header \<Rightarrow> segment \<Rightarrow> string list \<Rightarrow> segment list result" where
  "segments_loop file_header seg lines =
     (case x_final seg of
        Inl e \<Rightarrow> Inl e
      | Inr xf \<Rightarrow>
          (case read_segment lines file_header (Some (segment_header seg)) xf of
             Inl e \<Rightarrow> Inl e
           | Inr r \<Rightarrow>
               (case fst r of
                  None \<Rightarrow> Inr [seg]
                | Some nxt \<Rightarrow>
                    (case segments_loop file_header nxt (snd r) of
                       Inl e \<Rightarrow> Inl e
                     | Inr segs \<Rightarrow> Inr (seg # segs)))))"
  by pat_completeness auto
termination
proof (relation "measure (\<lambda>(file_header, seg, lines). length lines)")
  show "wf (measure (\<lambda>(file_header, seg, lines). length lines))" by simp
next
  fix file_header :: header and seg :: segment and lines :: "string list" and xf r nxt
  assume "read_segment lines file_header (Some (segment_header seg)) xf = Inr r"
    and "fst r = Some nxt"
  then have "read_segment lines file_header (Some (segment_header seg)) xf = Inr (Some nxt, snd r)"
    by (cases r) simp
  from read_segment_consumes [OF this]
  show "((file_header, nxt, snd r), (file_header, seg, lines))
          \<in> measure (\<lambda>(file_header, seg, lines). length lines)"
    by simp
qed

declare segments_loop.simps [simp del]

definition read_lines :: "string list \<Rightarrow> lvm_data result" where
  "read_lines lines =
     bind (read_file_header lines) (\<lambda>(file_header, lines).
     bind (read_segment lines file_header None PNone) (\<lambda>(seg, lines).
       case seg of
         None \<Rightarrow> Inr \<lparr>lvm_file_header = file_header, lvm_segments = []\<rparr>
       | Some s \<Rightarrow>
           bind (segments_loop file_header s lines) (\<lambda>segs.
             Inr \<lparr>lvm_file_header = file_header, lvm_segments = segs\<rparr>)))"

subsection \<open>Example files\<close>

text \<open>A line of a file with its line terminator, and a key/value line of a
  tab-separated file.\<close>

definition nl :: "string \<Rightarrow> string" where
  "nl s = s @ [LF]"

definition kv :: "string \<Rightarrow> string \<Rightarrow> string" where
  "kv k v = k @ [TAB] @ v @ [LF]"


definition file_header_without_Writer_Version :: "string list" where
  "file_header_without_Writer_Version =
     [nl ''LabVIEW Measurement'', kv ''Separator'' ''Tab'',
      nl ([TAB] @ ''x''), kv ''Date'' ''2020/01/01'', kv ''Time'' ''12:00:00'',
      nl ''***End_of_Header***'']"

definition file_header_with_blank_line :: "string list" where
  "file_header_with_blank_line =
     [nl ''LabVIEW Measurement'', kv ''Writer_Version'' ''2'', kv ''Separator'' ''Tab'',
      nl ([TAB] @ ''x''), nl [], kv ''Date'' ''2020/01/01'', kv ''Time'' ''12:00:00'',
      nl ''***End_of_Header***'']"

text \<open>The header that \<open>read_file_header\<close> returns for \<open>file_header_lines\<close>.\<close>

definition example_file_header :: header where
  "example_file_header =
     [(''Description'', PStr []), (''Multi_Headings'', PBool False), (''Operator'', PStr []),
      (''Project'', PStr []), (''Reader_Version'', PStr ''Writer_Version''),
      (''Separator'', PStr [TAB]), (''Decimal_Separator'', PStr '',''),
      (''Time_Pref'', PStr ''Relative''), (''X_Columns'', PStr ''One''),
      (''Writer_Version'', PFloat (Finite 2)), (''Date'', PDate (PyDate 2020 1 1)),
      (''Time'', PTime (PyTime 12 0 0 0))]"

text \<open>A key/value line with several values.\<close>

definition kvs :: "string \<Rightarrow> string list \<Rightarrow> string" where
  "kvs k vs = k @ concat (map (\<lambda>v. [TAB] @ v) vs) @ [LF]"

text \<open>
  Scenario A: one segment with one channel, \<open>X_Columns\<close> left at its default \<open>One\<close>.
  First as the scenario words it, with the file header fields \<open>Date\<close>, \<open>Time\<close> and
  \<open>Writer_Version\<close> and the segment fields \<open>Channels\<close>, \<open>Samples\<close>, \<open>X0\<close> and
  \<open>Delta_X\<close>; then with a \<open>Separator\<close> line added to the file header; then also with
  the \<open>Date\<close> and \<open>Time\<close> that the segment schema requires.
\<close>

definition scenario_A_rows :: "string list" where
  "scenario_A_rows =
     [nl ''***End_of_Header***'', kv ''X_Value'' ''Untitled'',
      kv ''0'' ''1.0'', kv ''1'' ''2.0'', kv ''2'' ''3.0'']"

definition scenario_A :: "string list" where
  "scenario_A =
     [nl ''LabVIEW Measurement'', kv ''Date'' ''2020/01/01'', kv ''Time'' ''12:00:00'',
      kv ''Writer_Version'' ''2'', nl ''***End_of_Header***'',
      kv ''Channels'' ''1'', kv ''Samples'' ''3'', kv ''X0'' ''0'', kv ''Delta_X'' ''1'']
     @ scenario_A_rows"

definition scenario_A_with_Separator :: "string list" where
  "scenario_A_with_Separator =
     [nl ''LabVIEW Measurement'', kv ''Separator'' ''Tab'', kv ''Date'' ''2020/01/01'',
      kv ''Time'' ''12:00:00'', kv ''Writer_Version'' ''2'', nl ''***End_of_Header***'',
      kv ''Channels'' ''1'', kv ''Samples'' ''3'', kv ''X0'' ''0'', kv ''Delta_X'' ''1'']
     @ scenario_A_rows"

definition scenario_A_complete :: "string list" where
  "scenario_A_complete =
     [nl ''LabVIEW Measurement'', kv ''Separator'' ''Tab'', kv ''Date'' ''2020/01/01'',
      kv ''Time'' ''12:00:00'', kv ''Writer_Version'' ''2'', nl ''***End_of_Header***'',
      kv ''Channels'' ''1'', kv ''Samples'' ''3'', kv ''Date'' ''2020/01/01'',
      kv ''Time'' ''12:00:00'', kv ''X0'' ''0'', kv ''Delta_X'' ''1'']
     @ scenario_A_rows"

text \<open>
  A file of two channels and two segments of two rows, the second without a header
  (\<open>Multi_Headings\<close> is left at its default False), with \<open>X_Columns\<close> as given. The
  header gives \<open>Samples\<close>, \<open>X0\<close> and \<open>Delta_X\<close> per channel.
\<close>

definition two_segments :: "string \<Rightarrow> string list" where
  "two_segments x_columns =
     [nl ''LabVIEW Measurement'', kv ''Separator'' ''Tab'', kv ''X_Columns'' x_columns,
      kv ''Date'' ''2020/01/01'', kv ''Time'' ''12:00:00'', kv ''Writer_Version'' ''2'',
      nl ''***End_of_Header***'',
      kv ''Channels'' ''2'', kvs ''Samples'' [''2'', ''2''],
      kvs ''Date'' [''2020/01/01'', ''2020/01/01''], kvs ''Time'' [''12:00:00'', ''12:00:00''],
      kvs ''X0'' [''0'', ''100''], kvs ''Delta_X'' [''1'', ''5''],
      nl ''***End_of_Header***'', kvs ''X_Value'' [''A'', ''B''],
      kvs ''0'' [''1,5'', ''2''], kvs ''1'' [''3'', ''4''], nl [],
      kvs ''0'' [''5'', ''6''], kvs ''1'' [''7'', ''8'']]"

text \<open>A segment header of two channels, and three rows of which the second has no Y
  value for the first channel.\<close>

definition two_channel_header :: header where
  "two_channel_header =
     [(''Channels'', PInt 2), (''Samples'', PList [PInt 3, PInt 3]),
      (''X0'', PList [PInt 0, PInt 100]), (''Delta_X'', PList [PInt 1, PInt 5])]"

definition two_channel_rows :: "string list" where
  "two_channel_rows =
     [kvs ''0'' [''1.0'', ''7''], kvs ''1'' [[], ''8''], kvs ''2'' [''3.0'', ''9'', ''note'']]"

text \<open>
  A file header with \<open>X_Columns\<close> set to \<open>No\<close>; a first segment of two channels, held
  with the header \<open>two_channel_header\<close>, whose second channel has no sample; and the three
  rows that follow it in the file.
\<close>

definition continued_file_header :: header where
  "continued_file_header = setitem example_file_header ''X_Columns'' (PStr ''No'')"

definition first_segment :: segment where
  "first_segment =
     \<lparr>segment_header = two_channel_header,
      segment_data = [([PInt 0, PInt 1], [PFloat (Finite 1), PFloat (Finite 2)]), ([], [])],
      segment_comments = [[], []]\<rparr>"

definition continued_rows :: "string list" where
  "continued_rows = [kvs [] [''5'', ''6''], kvs [] [''7'', ''8''], kvs [] [''9'', ''10'']]"

text \<open>
  The header of a segment of two channels with the given value tokens of \<open>Samples\<close> and
  of \<open>X0\<close>, up to the line of the column names; two rows of such a segment; and what a
  call of \<open>read_segment_header\<close> has stored under \<open>Samples\<close> when it returns.
\<close>

definition segment_header_lines :: "string list \<Rightarrow> string list \<Rightarrow> string list" where
  "segment_header_lines samples x0 =
     [kv ''Channels'' ''2'', kvs ''Samples'' samples, kv ''Date'' ''2020/01/01'',
      kv ''Time'' ''12:00:00'', kvs ''X0'' x0, kvs ''Delta_X'' [''1'', ''5''],
      nl ''***End_of_Header***'', kvs ''X_Value'' [''A'', ''B'']]"

definition two_rows :: "string list" where
  "two_rows = [kvs ''0'' [''1,5'', ''2''], kvs ''1'' [''3'', ''4'']]"

definition stored_Samples ::
  "(header option \<times> string list) result \<Rightarrow> (pyval result option \<times> string list) result" where
  "stored_Samples r = bind r (\<lambda>(sh, rest). Inr (map_option (\<lambda>h. getitem h ''Samples'') sh, rest))"

text \<open>
  A file of two segments of two channels under one header (\<open>Multi_Headings\<close> left at its
  default False), with \<open>X_Columns\<close> as given, whose header gives \<open>X0\<close> once, for all
  channels.
\<close>

definition single_X0_file :: "string \<Rightarrow> string list" where
  "single_X0_file x_columns =
     [nl ''LabVIEW Measurement'', kv ''Separator'' ''Tab'', kv ''X_Columns'' x_columns,
      kv ''Date'' ''2020/01/01'', kv ''Time'' ''12:00:00'', kv ''Writer_Version'' ''2'',
      nl ''***End_of_Header***'']
     @ segment_header_lines [''2'', ''2''] [''0''] @ two_rows @ [nl []] @ two_rows"

section \<open>Properties of the reader\<close>

subsection \<open>Field coercion\<close>

text \<open>
  C4. An empty token under each numeric type tag. The tags \<open>integer\<close> and \<open>float\<close>
  give None, as the claim says. The tag \<open>number\<close> does not: \<open>_lvm_float\<close> returns
  None and \<open>parse_value\<close> then calls \<open>is_integer()\<close> on it, so the call raises
  AttributeError instead of returning None, whatever the separators are.
\<close>

theorem parse_value_empty_token:
  "parse_value [] (Some ''number'') sep decsep = Inl AttributeError
   \<and> parse_value [] (Some ''integer'') sep decsep = Inr PNone
   \<and> parse_value [] (Some ''float'') sep decsep = Inr PNone"
  by (simp add: parse_value_def lvm_float_def bind_def py_int_def strip_def strip_sign_def)

text \<open>
  C9. With the tab as delimiter (byte 0x09) the two-digit escape is a backslash followed
  by \<open>09\<close>. The reader builds the escape from \<open>hex(ord(sep))[2:]\<close>, which is \<open>9\<close>
  without its leading zero, so it looks for a backslash followed by \<open>9\<close> and leaves the
  two-digit escape in the text: the field \<open>a\09b\<close> comes back unchanged, not as
  \<open>a<TAB>b\<close>.
\<close>

theorem parse_value_text_tab_escape_not_decoded:
  "parse_value (CHR ''a'' # BACKSLASH # ''09b'') (Some ''text'') (PStr [TAB]) (PStr '','')
     = Inr (PStr (CHR ''a'' # BACKSLASH # ''09b''))"
  by code_simp

subsection \<open>The file header\<close>


text \<open>
  C2. A file header without its \<open>Writer_Version\<close> line. The header dict is filled with
  the defaults of the fields that are not required, so a required field that never got a
  value is a missing key, and \<open>validate_header\<close> reads \<open>headers[h]\<close> before it
  compares with None: the read raises KeyError, not the LVMFormatError
  \<open>Header ... not found\<close> that the function goes on to raise for a value of None.
\<close>

theorem read_file_header_missing_Writer_Version:
  "read_file_header file_header_without_Writer_Version = Inl (KeyError ''Writer_Version'')"
  by code_simp

text \<open>
  C8. The line that begins with the delimiter is skipped: \<open>file_header_lines\<close> holds
  one and parses (lemma \<open>file_header_lines_parse\<close>). The same header with a blank line
  does not: the loop of \<open>read_file_header\<close> tests only \<open>line.startswith(separator)\<close>,
  the blank line is split into the one token \<open>''\<close>, and the reader raises the
  LVMFormatError for a line that is not a key/value pair.
\<close>

theorem read_file_header_blank_line:
  "read_file_header file_header_with_blank_line
     = Inl (LVMFormatError (Error_parsing_key_value_pair [[]]))"
  by code_simp













subsection \<open>The segment header\<close>

text \<open>The error that the end of \<open>read_segment_header\<close> raises for a header that was
  started and not finished. No function that the loop calls raises it.\<close>

abbreviation (input) truncated :: py_error where
  "truncated \<equiv> LVMFormatError Failed_to_parse_segment_header"

lemma getitem_not_truncated: "getitem d k \<noteq> Inl truncated"
  by (simp add: getitem_def split: option.splits)

lemma bind_not_truncated: "m \<noteq> Inl truncated \<Longrightarrow> (\<And>a. f a \<noteq> Inl truncated) \<Longrightarrow> bind m f \<noteq> Inl truncated"
  by (cases m) (auto simp: bind_def)

lemma strptime_not_truncated:
  "strptime_date s \<noteq> Inl truncated" "strptime_time s \<noteq> Inl truncated" "strptime_time_f s \<noteq> Inl truncated"
  unfolding strptime_date_def strptime_time_def strptime_time_f_def
  by (simp_all split: list.splits prod.splits)

lemma lvm_float_not_truncated: "lvm_float v d \<noteq> Inl truncated"
  by (simp add: lvm_float_def split: pyval.splits option.splits)

lemma parse_time_not_truncated: "parse_time v d \<noteq> Inl truncated"
  unfolding parse_time_def
  by (simp add: bind_not_truncated strptime_not_truncated split: pyval.splits list.splits)

lemma parse_text_not_truncated: "parse_text v d \<noteq> Inl truncated"
  unfolding parse_text_def by (simp add: Let_def split: pyval.splits)

lemma parse_value_not_truncated: "parse_value v t s d \<noteq> Inl truncated"
  unfolding parse_value_def
  by (simp add: bind_not_truncated strptime_not_truncated lvm_float_not_truncated
        parse_time_not_truncated parse_text_not_truncated split: pyval.splits option.splits)

lemma check_options_not_truncated: "check_options h k sp \<noteq> Inl truncated"
  unfolding check_options_def by (simp add: bind_not_truncated getitem_not_truncated)

lemma validate_header_not_truncated: "validate_header h s \<noteq> Inl truncated"
proof (induction s)
  case Nil
  then show ?case by simp
next
  case (Cons a s)
  obtain k sp where a: "a = (k, sp)" by (cases a)
  show ?case unfolding a validate_header.simps
    by (intro bind_not_truncated) (simp_all add: bind_not_truncated getitem_not_truncated check_options_not_truncated Cons.IH)
qed

lemma parse_values_not_truncated: "parse_values fh vs t \<noteq> Inl truncated"
  by (induction vs) (simp_all add: bind_not_truncated parse_value_not_truncated getitem_not_truncated)

lemma store_values_not_truncated: "store_values sh k data line \<noteq> Inl truncated"
  by (simp add: store_values_def)

lemma py_split_not_truncated: "py_split s d \<noteq> Inl truncated"
  by (simp add: py_split_def split: pyval.splits)

lemma py_startswith_not_truncated: "py_startswith s d \<noteq> Inl truncated"
  by (simp add: py_startswith_def split: pyval.splits)

lemma finish_segment_header_not_truncated: "finish_segment_header fh sh ls \<noteq> Inl truncated"
  unfolding finish_segment_header_def
  by (intro bind_not_truncated)
     (simp_all add: Let_def bind_not_truncated validate_header_not_truncated getitem_not_truncated py_split_not_truncated split: list.splits)

lemma segment_header_line_not_truncated: "segment_header_line fh sh l ls \<noteq> Raise truncated"
proof -
  have a: "bind (getitem fh ''Separator'') (py_startswith s) \<noteq> Inl truncated" for s
    by (simp add: bind_not_truncated getitem_not_truncated py_startswith_not_truncated)
  have b: "bind (getitem fh ''Separator'') (py_split s) \<noteq> Inl truncated" for s
    by (simp add: bind_not_truncated getitem_not_truncated py_split_not_truncated)
  have c: "bind (parse_values fh vals t) (\<lambda>data. store_values sh key data s) \<noteq> Inl truncated" for vals t key s
    by (simp add: bind_not_truncated parse_values_not_truncated store_values_not_truncated)
  show ?thesis
    using a b c finish_segment_header_not_truncated [of fh sh ls]
    unfolding segment_header_line_def Let_def
    by (auto split: sum.splits list.splits option.splits prod.splits)
qed

lemma read_segment_header_loop_not_truncated:
  "\<not> started \<Longrightarrow> read_segment_header_loop started fh sh ls \<noteq> Inl truncated"
proof (induction started fh sh ls rule: read_segment_header_loop.induct)
  case (1 seg_started file_header seg_header)
  then show ?case by simp
next
  case (2 seg_started file_header seg_header l lines)
  then show ?case
    using segment_header_line_not_truncated [of file_header seg_header l lines]
    by (auto split: loop_step.splits)
qed

lemma header_defaults_not_truncated: "header_defaults s \<noteq> Inl truncated"
proof (induction s)
  case Nil
  then show ?case by simp
next
  case (Cons a s)
  obtain k sp where a: "a = (k, sp)" by (cases a)
  show ?case unfolding a
    by (simp add: bind_not_truncated Cons.IH split: option.splits)
qed

text \<open>
  C3. When the lines run out before the end-of-header marker, \<open>read_segment_header\<close>
  tests \<open>seg_started\<close>, which is False from its initialisation on: no statement of the
  loop assigns it. So the function returns None also after header content was consumed,
  as for the one line \<open>Channels<TAB>2\<close> here, and the \<open>raise\<close> for a truncated header
  that follows the test is never reached, for any lines and any file header. The first
  half of the claim (None when nothing was consumed) holds.
\<close>

theorem read_segment_header_never_reports_truncation:
  "read_segment_header [] example_file_header = Inr (None, [])
   \<and> read_segment_header [kvs ''Channels'' [''2'']] example_file_header = Inr (None, [])
   \<and> (\<forall>lines file_header.
        read_segment_header lines file_header \<noteq> Inl (LVMFormatError Failed_to_parse_segment_header))"
proof (intro conjI allI)
  show "read_segment_header [] example_file_header = Inr (None, [])"
    by code_simp
  show "read_segment_header [kvs ''Channels'' [''2'']] example_file_header = Inr (None, [])"
    by code_simp
  show "read_segment_header lines file_header \<noteq> Inl truncated" for lines file_header
    unfolding read_segment_header_def
    by (simp add: bind_not_truncated header_defaults_not_truncated
          read_segment_header_loop_not_truncated)
qed

lemma parse_values_data:
  "parse_values file_header vals vtype = Inr data \<Longrightarrow>
   length data = length (filter (\<lambda>v. v \<noteq> []) vals)
   \<and> list_all2 (\<lambda>v d. \<exists>sep decsep. getitem file_header ''Separator'' = Inr sep
                        \<and> getitem file_header ''Decimal_Separator'' = Inr decsep
                        \<and> parse_value v vtype sep decsep = Inr d)
        (filter (\<lambda>v. v \<noteq> []) vals) data"
proof (induction vals arbitrary: data)
  case Nil
  then show ?case by simp
next
  case (Cons v vs)
  show ?case
  proof (cases "v = []")
    case True
    with Cons show ?thesis by simp
  next
    case False
    with Cons.prems obtain sep decsep d ds where
      "getitem file_header ''Separator'' = Inr sep"
      "getitem file_header ''Decimal_Separator'' = Inr decsep"
      "parse_value v vtype sep decsep = Inr d"
      "parse_values file_header vs vtype = Inr ds" "data = d # ds"
      by (auto simp: bind_def split: sum.splits)
    with Cons.IH [of ds] False show ?thesis by auto
  qed
qed

text \<open>
  What the body of the loop does with a key/value(s) line of a known field when the
  coercion of its value tokens raises no exception: \<open>data\<close> holds the result of the
  coercion of every non-empty token, in order, a result of None included, and the chain
  that follows tests its length, the number of non-empty tokens.
\<close>

lemma segment_header_key_value_line:
  assumes "getitem file_header ''Separator'' = Inr sep"
    and "\<not> startswith (strip_newlines l) END_OF_HEADER"
    and "py_startswith (strip_newlines l) sep = Inr False"
    and "strip_newlines l \<noteq> []"
    and "\<not> startswith (strip_newlines l) SPECIAL_BLOCK_START"
    and "py_split (strip_newlines l) sep = Inr (key # vals)"
    and "map_of SEGMENT_HEADERS key = Some sp"
    and "parse_values file_header vals (Some (ftype sp)) = Inr data"
  shows "length data = length (filter (\<lambda>v. v \<noteq> []) vals)
    \<and> list_all2 (\<lambda>v d. \<exists>decsep. getitem file_header ''Decimal_Separator'' = Inr decsep
                        \<and> parse_value v (Some (ftype sp)) sep decsep = Inr d)
        (filter (\<lambda>v. v \<noteq> []) vals) data
    \<and> segment_header_line file_header seg_header l lines =
       (if data = [] then Raise (LVMFormatError (Error_parsing_value_at (strip_newlines l)))
        else if length data = 1 then Next (setitem seg_header key (hd data), lines)
        else if \<exists>ch. map_of seg_header ''Channels'' = Some ch \<and> py_eq_int (int (length data)) ch
        then Next (setitem seg_header key (PList data), lines)
        else Raise (LVMFormatError
                (Mismatch_between_number_of_Channels (map_of seg_header ''Channels'') key data
                   (length data))))"
proof -
  from parse_values_data [OF assms(8)] assms(1)
  have a: "length data = length (filter (\<lambda>v. v \<noteq> []) vals)"
    and b: "list_all2 (\<lambda>v d. \<exists>decsep. getitem file_header ''Decimal_Separator'' = Inr decsep
                        \<and> parse_value v (Some (ftype sp)) sep decsep = Inr d)
        (filter (\<lambda>v. v \<noteq> []) vals) data"
    by (auto elim!: list_all2_mono)
  have c: "segment_header_line file_header seg_header l lines =
       (case store_values seg_header key data (strip_newlines l) of
          Inl e \<Rightarrow> Raise e | Inr sh \<Rightarrow> Next (sh, lines))"
    using assms unfolding segment_header_line_def Let_def by (simp add: bind_def)
  have d: "(case store_values seg_header key data (strip_newlines l) of
          Inl e \<Rightarrow> Raise e | Inr sh \<Rightarrow> Next (sh, lines)) =
       (if data = [] then Raise (LVMFormatError (Error_parsing_value_at (strip_newlines l)))
        else if length data = 1 then Next (setitem seg_header key (hd data), lines)
        else if \<exists>ch. map_of seg_header ''Channels'' = Some ch \<and> py_eq_int (int (length data)) ch
        then Next (setitem seg_header key (PList data), lines)
        else Raise (LVMFormatError
                (Mismatch_between_number_of_Channels (map_of seg_header ''Channels'') key data
                   (length data))))"
    unfolding store_values_def by (cases data) (auto simp: hd_conv_nth split: option.splits)
  from a b c d show ?thesis by simp
qed

lemma segment_header_key_value_line_example:
  "py_split (strip_newlines (kvs ''Samples'' [''3'', ''abc''])) (PStr [TAB])
     = Inr [''Samples'', ''3'', ''abc'']
   \<and> parse_values example_file_header [''3'', ''abc''] (Some ''integer'') = Inr [PInt 3, PNone]
   \<and> segment_header_line example_file_header [(''Channels'', PInt 2)]
        (kvs ''Samples'' [''3'', ''abc'']) []
       = Next ([(''Channels'', PInt 2), (''Samples'', PList [PInt 3, PNone])], [])"
proof -
  let ?l = "kvs ''Samples'' [''3'', ''abc'']"
  have h1: "getitem example_file_header ''Separator'' = Inr (PStr [TAB])" by code_simp
  have h2: "\<not> startswith (strip_newlines ?l) END_OF_HEADER" by code_simp
  have h3: "py_startswith (strip_newlines ?l) (PStr [TAB]) = Inr False" by code_simp
  have h4: "strip_newlines ?l \<noteq> []" by code_simp
  have h5: "\<not> startswith (strip_newlines ?l) SPECIAL_BLOCK_START" by code_simp
  have h6: "py_split (strip_newlines ?l) (PStr [TAB]) = Inr (''Samples'' # [''3'', ''abc''])"
    by code_simp
  have h7: "map_of SEGMENT_HEADERS ''Samples'' = Some (req ''integer'')" by code_simp
  have h8: "parse_values example_file_header [''3'', ''abc''] (Some (ftype (req ''integer'')))
              = Inr [PInt 3, PNone]"
    by code_simp
  have t: "ftype (req ''integer'') = ''integer''" by (simp add: req_def)
  from segment_header_key_value_line [OF h1 h2 h3 h4 h5 h6 h7 h8,
      of "[(''Channels'', PInt 2)]" "[]"]
  have "segment_header_line example_file_header [(''Channels'', PInt 2)] ?l []
       = Next ([(''Channels'', PInt 2), (''Samples'', PList [PInt 3, PNone])], [])"
    by (simp add: setitem_def py_eq_int_def)
  with h6 h8 t show ?thesis by simp
qed

text \<open>
  C6. The reader does not count the values that coerce successfully, and a value that
  does not coerce is not an error. \<open>parse_value\<close> returns None for the token \<open>abc\<close> of the
  \<open>integer\<close> field \<open>Samples\<close>; the loop over the tokens appends it to \<open>data\<close> and the
  \<open>if not data\<close> chain counts it. With \<open>Channels\<close> 2, the line with the tokens \<open>abc\<close> and
  \<open>def\<close>, of which none coerces, is stored as the list of two None, and the line with the
  tokens \<open>3\<close> and \<open>abc\<close>, of which one coerces, as the list of 3 and None; the header
  validates and is returned, and \<open>max(samples)\<close> of \<open>read_segment_data\<close> raises TypeError.
  A single token \<open>abc\<close> is stored as the scalar None by its line, and the reader raises
  only at the end-of-header marker, where \<open>validate_header\<close> takes the field for missing.
  For the \<open>number\<close> field \<open>X0\<close> the token \<open>abc\<close> raises AttributeError. The loop of
  \<open>read_file_header\<close> raises the format error for a value that coerces to None
  (\<open>if data is None\<close>). A single value that does coerce is stored as a scalar, here the
  int 2 for \<open>Samples\<close>, and does not apply to all channels: \<open>max(samples)\<close> raises
  TypeError on it.
\<close>

theorem read_segment_header_stores_uncoerced_values:
  "parse_value ''abc'' (Some ''integer'') (PStr [TAB]) (PStr '','') = Inr PNone
   \<and> stored_Samples (read_segment_header
         (segment_header_lines [''abc'', ''def''] [''0'', ''100'']) example_file_header)
       = Inr (Some (Inr (PList [PNone, PNone])), [])
   \<and> stored_Samples (read_segment_header
         (segment_header_lines [''3'', ''abc''] [''0'', ''100'']) example_file_header)
       = Inr (Some (Inr (PList [PInt 3, PNone])), [])
   \<and> read_segment (segment_header_lines [''abc'', ''def''] [''0'', ''100''] @ two_rows)
         example_file_header None PNone
       = Inl TypeError
   \<and> read_segment (segment_header_lines [''3'', ''abc''] [''0'', ''100''] @ two_rows)
         example_file_header None PNone
       = Inl TypeError
   \<and> segment_header_line example_file_header [] (kvs ''Samples'' [''abc'']) []
       = Next ([(''Samples'', PNone)], [])
   \<and> read_segment_header (segment_header_lines [''abc''] [''0'', ''100'']) example_file_header
       = Inl (LVMFormatError (Header_not_found ''Samples''))
   \<and> read_segment_header (segment_header_lines [''2'', ''2''] [''abc'']) example_file_header
       = Inl AttributeError
   \<and> file_header_line (PStr [TAB]) example_file_header (kv ''Writer_Version'' ''abc'') []
       = Raise (LVMFormatError (Error_parsing_value_at (''Writer_Version'' @ [TAB] @ ''abc'')))
   \<and> stored_Samples (read_segment_header
         (segment_header_lines [''2''] [''0'', ''100'']) example_file_header)
       = Inr (Some (Inr (PInt 2)), [])
   \<and> read_segment (segment_header_lines [''2''] [''0'', ''100''] @ two_rows)
         example_file_header None PNone
       = Inl TypeError"
proof (intro conjI)
  show "parse_value ''abc'' (Some ''integer'') (PStr [TAB]) (PStr '','') = Inr PNone"
    by code_simp
  show "stored_Samples (read_segment_header
          (segment_header_lines [''abc'', ''def''] [''0'', ''100'']) example_file_header)
        = Inr (Some (Inr (PList [PNone, PNone])), [])"
    by code_simp
  show "stored_Samples (read_segment_header
          (segment_header_lines [''3'', ''abc''] [''0'', ''100'']) example_file_header)
        = Inr (Some (Inr (PList [PInt 3, PNone])), [])"
    by code_simp
  show "read_segment (segment_header_lines [''abc'', ''def''] [''0'', ''100''] @ two_rows)
          example_file_header None PNone
        = Inl TypeError"
    by code_simp
  show "read_segment (segment_header_lines [''3'', ''abc''] [''0'', ''100''] @ two_rows)
          example_file_header None PNone
        = Inl TypeError"
    by code_simp
  show "segment_header_line example_file_header [] (kvs ''Samples'' [''abc'']) []
        = Next ([(''Samples'', PNone)], [])"
    by code_simp
  show "read_segment_header (segment_header_lines [''abc''] [''0'', ''100'']) example_file_header
        = Inl (LVMFormatError (Header_not_found ''Samples''))"
    by code_simp
  show "read_segment_header (segment_header_lines [''2'', ''2''] [''abc'']) example_file_header
        = Inl AttributeError"
    by code_simp
  show "file_header_line (PStr [TAB]) example_file_header (kv ''Writer_Version'' ''abc'') []
        = Raise (LVMFormatError (Error_parsing_value_at (''Writer_Version'' @ [TAB] @ ''abc'')))"
    by code_simp
  show "stored_Samples (read_segment_header
          (segment_header_lines [''2''] [''0'', ''100'']) example_file_header)
        = Inr (Some (Inr (PInt 2)), [])"
    by code_simp
  show "read_segment (segment_header_lines [''2''] [''0'', ''100''] @ two_rows)
          example_file_header None PNone
        = Inl TypeError"
    by code_simp
qed

subsection \<open>The data of a segment\<close>

lemma bind_Inr_iff: "bind m f = Inr y \<longleftrightarrow> (\<exists>x. m = Inr x \<and> f x = Inr y)"
  by (cases m) (auto simp: bind_def)

text \<open>A channel whose Y value is None is left as it is by the loop over the channels.\<close>

lemma channels_loop_skips_None:
  "f i = Inr (x, PNone) \<Longrightarrow> channels_loop f (i # is) d = channels_loop f is d"
  by (simp add: bind_def)

lemma channels_loop_lockstep:
  "channels_loop f is d = Inr d' \<Longrightarrow>
   \<forall>ch\<in>set d. length (fst ch) = length (snd ch) \<Longrightarrow>
   \<forall>ch\<in>set d'. length (fst ch) = length (snd ch)"
proof (induction "is" arbitrary: d)
  case Nil
  then show ?case by simp
next
  case (Cons i "is")
  from Cons.prems(1) obtain x y where
    fi: "f i = Inr (x, y)" and
    rec: "channels_loop f is
            (if y = PNone then d
             else d[i := (fst (d ! i) @ [x], snd (d ! i) @ [y])]) = Inr d'"
    by (auto simp: bind_Inr_iff)
  have "\<forall>ch\<in>set (if y = PNone then d
             else d[i := (fst (d ! i) @ [x], snd (d ! i) @ [y])]). length (fst ch) = length (snd ch)"
  proof (cases "y = PNone \<or> length d \<le> i")
    case True
    with Cons.prems(2) show ?thesis by (auto simp: list_update_beyond)
  next
    case False
    then have "d ! i \<in> set d" by simp
    with Cons.prems(2) have "length (fst (d ! i)) = length (snd (d ! i))" by blast
    with Cons.prems(2) False show ?thesis
      by (auto dest!: subsetD [OF set_update_subset_insert])
  qed
  with Cons.IH rec show ?case by blast
qed

lemma read_row_lockstep:
  assumes "read_row file_header seg_header x_columns decsep x0 sample l st = Inr st'"
    and "\<forall>ch\<in>set (fst st). length (fst ch) = length (snd ch)"
  shows "\<forall>ch\<in>set (fst st'). length (fst ch) = length (snd ch)"
proof -
  from assms(1) obtain f ixs d' where
    "channels_loop f ixs (fst st) = Inr d'" and "fst st' = d'"
    unfolding read_row_def Let_def
    by (auto simp: bind_Inr_iff split: option.splits)
  with assms(2) show ?thesis
    using channels_loop_lockstep by blast
qed

lemma rows_loop_invariant:
  assumes step: "\<And>s l st st'. row s l st = Inr st' \<Longrightarrow> I st \<Longrightarrow> I st'"
  shows "rows_loop row m s ls st = Inr (st', rest) \<Longrightarrow> I st \<Longrightarrow> I st'"
proof (induction ls arbitrary: s st)
  case Nil
  then show ?case by (auto split: sum.splits if_splits)
next
  case (Cons l ls)
  from Cons.prems show ?case
    by (auto split: sum.splits if_splits dest: step intro: Cons.IH)
qed

lemma rows_loop_read_row_lockstep:
  assumes "rows_loop (read_row file_header seg_header x_columns decsep x0) m 0 lines
             (replicate n ([], []), []) = Inr ((seg_data, cmts), rest)"
  shows "\<forall>ch\<in>set seg_data. length (fst ch) = length (snd ch)"
proof -
  let ?I = "\<lambda>st :: seg_data \<times> string list. \<forall>ch\<in>set (fst st). length (fst ch) = length (snd ch)"
  have step: "\<And>s l st st'. read_row file_header seg_header x_columns decsep x0 s l st = Inr st'
                 \<Longrightarrow> ?I st \<Longrightarrow> ?I st'"
    using read_row_lockstep by blast
  have init: "?I (replicate n ([], []), [])" by simp
  from rows_loop_invariant [where I = ?I, OF step assms init] show ?thesis by simp
qed

lemma two_channel_rows_read:
  "read_segment_data two_channel_rows example_file_header two_channel_header PNone
     = Inr (Some ([([PFloat (Finite 0), PFloat (Finite 2)], [PFloat (Finite 1), PFloat (Finite 3)]),
                   ([PFloat (Finite 0), PFloat (Finite 1), PFloat (Finite 2)],
                    [PFloat (Finite 7), PFloat (Finite 8), PFloat (Finite 9)])],
                  [[], [], ''note'']), [])"
  by code_simp

text \<open>
  C10. In every segment that \<open>read_segment_data\<close> returns, every channel has as many X
  values as Y values: the channels start empty, and a row either appends one X and one Y
  value to a channel or, when the Y value is None, appends nothing to it (lemma
  \<open>channels_loop_skips_None\<close>).
\<close>

theorem read_segment_data_lockstep:
  assumes "read_segment_data lines file_header seg_header x0 = Inr (Some (seg_data, cmts), rest)"
  shows "\<forall>ch\<in>set seg_data. length (fst ch) = length (snd ch)"
  using assms unfolding read_segment_data_def
  by (auto simp: bind_Inr_iff split: option.splits if_splits
           dest!: rows_loop_read_row_lockstep)

theorem read_segment_data_lockstep_witness:
  "(\<exists>seg_data cmts rest.
      read_segment_data two_channel_rows example_file_header two_channel_header PNone
        = Inr (Some (seg_data, cmts), rest)
      \<and> map (\<lambda>ch. (length (fst ch), length (snd ch))) seg_data = [(2, 2), (3, 3)]
      \<and> list_all (\<lambda>ch. length (fst ch) = length (snd ch)) seg_data)"
proof -
  let ?d = "[([PFloat (Finite 0), PFloat (Finite 2)], [PFloat (Finite 1), PFloat (Finite 3)]),
            ([PFloat (Finite 0), PFloat (Finite 1), PFloat (Finite 2)],
             [PFloat (Finite 7), PFloat (Finite 8), PFloat (Finite 9)])]"
  from read_segment_data_lockstep [OF two_channel_rows_read]
  have a: "list_all (\<lambda>ch. length (fst ch) = length (snd ch)) ?d"
    by (simp only: list_all_iff)
  have b: "map (\<lambda>ch. (length (fst ch), length (snd ch))) ?d = [(2, 2), (3, 3)]"
    by simp
  from two_channel_rows_read a b show ?thesis
    by (intro exI [of _ ?d] exI [of _ "[[], [], ''note'']"] exI [of _ "[]"] conjI)
qed

subsection \<open>Whole files\<close>

text \<open>
  C1. Scenario A does not parse. As the scenario words it, with no \<open>Separator\<close> line,
  \<open>get_separator\<close> consumes the end-of-header marker of the file header without putting
  it into the buffer, \<open>read_file_header\<close> reads on into the segment header and raises the
  LVMFormatError for the unknown file header field \<open>Channels\<close>. With a \<open>Separator\<close>
  line, \<open>validate_header\<close> raises KeyError for the segment's required \<open>Date\<close>. With the
  segment's \<open>Date\<close> and \<open>Time\<close> added, the segment header is read, and the one value of
  \<open>Samples\<close> has been stored as the scalar 3, on which \<open>max(samples)\<close> raises TypeError,
  as it does on every int.
\<close>

theorem read_lines_scenario_A:
  "read_lines scenario_A = Inl (LVMFormatError (Invalid_File_Header ''Channels''))
   \<and> read_lines scenario_A_with_Separator = Inl (KeyError ''Date'')
   \<and> read_lines scenario_A_complete = Inl TypeError
   \<and> (\<forall>n. py_max (PInt n) = Inl TypeError)"
proof (intro conjI allI)
  show "read_lines scenario_A = Inl (LVMFormatError (Invalid_File_Header ''Channels''))"
    by code_simp
  show "read_lines scenario_A_with_Separator = Inl (KeyError ''Date'')"
    by code_simp
  show "read_lines scenario_A_complete = Inl TypeError"
    by code_simp
  show "py_max (PInt n) = Inl TypeError" for n
    by (simp add: py_max_def py_iter_def bind_def)
qed

subsection \<open>Segments that share a header\<close>

text \<open>
  With \<open>X_Columns\<close> at \<open>One\<close> (the default) the X values of a row are read from its first
  column, and with \<open>Multi\<close> from the column before each Y value: the \<open>x0\<close> that
  \<open>read_lines\<close> hands to the next segment is used by the branch for \<open>No\<close> alone.
\<close>

lemma channel_values_ignores_x0:
  "x_columns \<noteq> PStr ''No'' \<Longrightarrow>
   channel_values seg_header x_columns decsep x0 sample vals x_one i
     = channel_values seg_header x_columns decsep x0' sample vals x_one i"
  by (simp add: channel_values_def)

text \<open>
  A file of two segments under one header that gives \<open>X0\<close> per channel, \<open>Multi_Headings\<close>
  False and \<open>X_Columns\<close> \<open>One\<close>, whose rows give the X values 0 and 1 in both segments:
  the last X value of both channels of the first segment is 1 (the \<open>x_final\<close> handed
  on), and the X values of the second segment are 0 and 1 again, as its rows give them.
\<close>

lemma two_segments_One_restart:
  "map_sum id (\<lambda>r. (getitem (lvm_file_header r) ''Multi_Headings'',
                     map (map fst \<circ> segment_data) (lvm_segments r),
                     map x_final (lvm_segments r)))
     (read_lines (two_segments ''One''))
   = Inr (Inr (PBool False),
          [[[PFloat (Finite 0), PFloat (Finite 1)], [PFloat (Finite 0), PFloat (Finite 1)]],
           [[PFloat (Finite 0), PFloat (Finite 1)], [PFloat (Finite 0), PFloat (Finite 1)]]],
          [Inr (PList [PFloat (Finite 1), PFloat (Finite 1)]),
           Inr (PList [PFloat (Finite 1), PFloat (Finite 1)])])"
  by code_simp

text \<open>The same file with \<open>X_Columns\<close> \<open>No\<close>: the second segment starts at the last X
  values of the first, 1 and 105.\<close>

lemma two_segments_No_continue:
  "map_sum id (map (map fst \<circ> segment_data) \<circ> lvm_segments) (read_lines (two_segments ''No''))
   = Inr [[[PInt 0, PInt 1], [PInt 100, PInt 105]], [[PInt 1, PInt 2], [PInt 105, PInt 110]]]"
  by code_simp

text \<open>\<open>x_final\<close> for a header whose \<open>X0\<close> is a list, and \<open>read_segment\<close> called with a
  held header when \<open>Multi_Headings\<close> is false: the header is not read again.\<close>

lemma x_final_list:
  assumes "getitem (segment_header seg) ''X0'' = Inr (PList x0s)"
  shows "x_final seg =
           Inr (PList (map (\<lambda>(ch, x0). if fst ch \<noteq> [] then last (fst ch) else x0)
                          (zip (segment_data seg) x0s)))"
  using assms by (simp add: x_final_def bind_def py_iter_def)

lemma read_segment_held_header:
  assumes "getitem file_header ''Multi_Headings'' = Inr m" and "\<not> py_truthy m"
  shows "read_segment lines file_header (Some sh) x0 =
           (case read_segment_data lines file_header sh x0 of
              Inl e \<Rightarrow> Inl e
            | Inr (None, rest) \<Rightarrow> Inr (None, rest)
            | Inr (Some (d, c), rest) \<Rightarrow>
                Inr (Some \<lparr>segment_header = sh, segment_data = d, segment_comments = c\<rparr>, rest))"
  using assms
  by (simp add: read_segment_def bind_def split: sum.splits option.splits prod.splits)

lemma first_segment_x_final:
  "x_final first_segment = Inr (PList [PInt 1, PInt 100])"
  by code_simp

lemma continued_rows_read:
  "read_segment_data continued_rows continued_file_header two_channel_header
       (PList [PInt 1, PInt 100])
     = Inr (Some ([([PInt 1, PInt 2, PInt 3], [PFloat (Finite 5), PFloat (Finite 7), PFloat (Finite 9)]),
                   ([PInt 100, PInt 105, PInt 110], [PFloat (Finite 6), PFloat (Finite 8), PFloat (Finite 10)])],
                  [[], [], []]), [])"
  by code_simp

lemma no_third_segment:
  "segments_loop continued_file_header
       \<lparr>segment_header = two_channel_header,
        segment_data = [([PInt 1, PInt 2, PInt 3], [PFloat (Finite 5), PFloat (Finite 7), PFloat (Finite 9)]),
                        ([PInt 100, PInt 105, PInt 110], [PFloat (Finite 6), PFloat (Finite 8), PFloat (Finite 10)])],
        segment_comments = [[], [], []]\<rparr> []
     = Inr [\<lparr>segment_header = two_channel_header,
        segment_data = [([PInt 1, PInt 2, PInt 3], [PFloat (Finite 5), PFloat (Finite 7), PFloat (Finite 9)]),
                        ([PInt 100, PInt 105, PInt 110], [PFloat (Finite 6), PFloat (Finite 8), PFloat (Finite 10)])],
        segment_comments = [[], [], []]\<rparr>]"
  by code_simp

text \<open>
  When \<open>Multi_Headings\<close> is false and the held header gives \<open>X0\<close> as a list, one turn
  of the loop of \<open>read_lines\<close> computes the list \<open>xf\<close> that pairs the channels with the
  elements of \<open>X0\<close>: for every channel its last X value, or its own \<open>X0\<close> when it has
  no X value. The loop calls \<open>read_segment_data\<close> on the held header with \<open>xf\<close> as
  \<open>x0\<close>, ends when that returns no data, and goes on with the segment it returns
  otherwise. When \<open>X_Columns\<close> is \<open>No\<close>, the X value of channel \<open>i\<close> in row \<open>sample\<close> of
  that segment is \<open>xf[i] + Delta_X[i] * sample\<close>.
\<close>

lemma segments_loop_x_continuation:
  assumes mh: "getitem file_header ''Multi_Headings'' = Inr m" and nt: "\<not> py_truthy m"
    and x0: "getitem (segment_header seg) ''X0'' = Inr (PList x0s)"
  shows "\<exists>xf. length xf = min (length (segment_data seg)) (length x0s)
           \<and> (\<forall>i<length xf. xf ! i = (if fst (segment_data seg ! i) = [] then x0s ! i
                                          else last (fst (segment_data seg ! i))))
           \<and> x_final seg = Inr (PList xf)
           \<and> segments_loop file_header seg lines =
               (case read_segment_data lines file_header (segment_header seg) (PList xf) of
                  Inl e \<Rightarrow> Inl e
                | Inr (None, rest) \<Rightarrow> Inr [seg]
                | Inr (Some (d, c), rest) \<Rightarrow>
                    (case segments_loop file_header
                            \<lparr>segment_header = segment_header seg, segment_data = d,
                             segment_comments = c\<rparr> rest of
                       Inl e \<Rightarrow> Inl e
                     | Inr segs \<Rightarrow> Inr (seg # segs)))
           \<and> (\<forall>i decsep sample vals x_one x y.
                 channel_values (segment_header seg) (PStr ''No'') decsep (PList xf) sample vals x_one i
                   = Inr (x, y)
                 \<longrightarrow> i < length xf
                     \<and> (\<exists>delta_x d p. getitem (segment_header seg) ''Delta_X'' = Inr delta_x
                           \<and> py_index delta_x i = Inr d
                           \<and> py_mul d (PInt sample) = Inr p
                           \<and> py_add (xf ! i) p = Inr x))"
proof -
  let ?xf = "map (\<lambda>(ch, x0). if fst ch \<noteq> [] then last (fst ch) else x0)
               (zip (segment_data seg) x0s)"
  have len: "length ?xf = min (length (segment_data seg)) (length x0s)" by simp
  have nth: "\<forall>i<length ?xf. ?xf ! i = (if fst (segment_data seg ! i) = [] then x0s ! i
                                          else last (fst (segment_data seg ! i)))"
    by simp
  have xf: "x_final seg = Inr (PList ?xf)" by (rule x_final_list [OF x0])
  have loop: "segments_loop file_header seg lines =
               (case read_segment_data lines file_header (segment_header seg) (PList ?xf) of
                  Inl e \<Rightarrow> Inl e
                | Inr (None, rest) \<Rightarrow> Inr [seg]
                | Inr (Some (d, c), rest) \<Rightarrow>
                    (case segments_loop file_header
                            \<lparr>segment_header = segment_header seg, segment_data = d,
                             segment_comments = c\<rparr> rest of
                       Inl e \<Rightarrow> Inl e
                     | Inr segs \<Rightarrow> Inr (seg # segs)))"
    by (subst segments_loop.simps)
       (simp add: xf read_segment_held_header [OF mh nt]
             split: sum.splits option.splits prod.splits)
  have no: "\<forall>i decsep sample vals x_one x y.
                 channel_values (segment_header seg) (PStr ''No'') decsep (PList ?xf) sample vals x_one i
                   = Inr (x, y)
                 \<longrightarrow> i < length ?xf
                     \<and> (\<exists>delta_x d p. getitem (segment_header seg) ''Delta_X'' = Inr delta_x
                           \<and> py_index delta_x i = Inr d
                           \<and> py_mul d (PInt sample) = Inr p
                           \<and> py_add (?xf ! i) p = Inr x)"
    unfolding channel_values_def
    by (auto simp: bind_Inr_iff py_index_def [of "PList xs" for xs] split: if_splits)
  from len nth xf loop no show ?thesis by blast
qed

lemma segments_loop_x_continuation_example:
  "x_final first_segment = Inr (PList [PInt 1, PInt 100])
   \<and> segments_loop continued_file_header first_segment continued_rows
       = Inr [first_segment,
              \<lparr>segment_header = two_channel_header,
               segment_data = [([PInt 1, PInt 2, PInt 3], [PFloat (Finite 5), PFloat (Finite 7), PFloat (Finite 9)]),
                               ([PInt 100, PInt 105, PInt 110], [PFloat (Finite 6), PFloat (Finite 8), PFloat (Finite 10)])],
               segment_comments = [[], [], []]\<rparr>]"
proof -
  have mh: "getitem continued_file_header ''Multi_Headings'' = Inr (PBool False)"
    by code_simp
  have nt: "\<not> py_truthy (PBool False)"
    by (simp add: py_truthy_def)
  have x0: "getitem (segment_header first_segment) ''X0'' = Inr (PList [PInt 0, PInt 100])"
    by code_simp
  have sh: "segment_header first_segment = two_channel_header"
    by (simp add: first_segment_def)
  from segments_loop_x_continuation [OF mh nt x0, of continued_rows]
  obtain xf where
    xf: "x_final first_segment = Inr (PList xf)" and
    loop: "segments_loop continued_file_header first_segment continued_rows =
             (case read_segment_data continued_rows continued_file_header
                     (segment_header first_segment) (PList xf) of
                Inl e \<Rightarrow> Inl e
              | Inr (None, rest) \<Rightarrow> Inr [first_segment]
              | Inr (Some (d, c), rest) \<Rightarrow>
                  (case segments_loop continued_file_header
                          \<lparr>segment_header = segment_header first_segment, segment_data = d,
                           segment_comments = c\<rparr> rest of
                     Inl e \<Rightarrow> Inl e
                   | Inr segs \<Rightarrow> Inr (first_segment # segs)))"
    by blast
  from xf first_segment_x_final have xfv: "xf = [PInt 1, PInt 100]" by simp
  from loop show ?thesis
    by (simp add: xfv sh continued_rows_read no_third_segment first_segment_x_final)
qed

text \<open>\<open>d[k] = v\<close> and then \<open>d[k]\<close>.\<close>

lemma getitem_setitem: "getitem (setitem d k v) k = Inr v"
  by (simp add: getitem_def setitem_def update_conv')

text \<open>
  C7. A header line with one value stores it as a scalar, and the loop of \<open>read_lines\<close>
  pairs the channels with \<open>segment['header']['X0']\<close> by \<open>zip\<close>, which raises TypeError on
  an int. In the file \<open>single_X0_file\<close>, with \<open>Multi_Headings\<close> False and \<open>X0\<close> given
  once, the first segment is read with \<open>X_Columns\<close> \<open>One\<close> (its X values are 0 and 1 in
  both channels, and the two rows of the second segment are left), \<open>x_final\<close> raises
  TypeError on it, and so does \<open>read_lines\<close>: the data reader is not called for the
  second segment. With \<open>X_Columns\<close> \<open>No\<close> \<open>read_lines\<close> raises TypeError too. The loop
  raises TypeError on every segment whose header holds an int or a float as \<open>X0\<close>, the
  two values that the coercion of a \<open>number\<close> field returns, whatever lines follow.
\<close>

theorem read_lines_single_X0_raises:
  "bind (read_file_header (single_X0_file ''One'')) (\<lambda>(fh, rest).
     bind (read_segment rest fh None PNone) (\<lambda>(seg, rest').
       Inr (getitem fh ''Multi_Headings'',
            map_option (\<lambda>s. (getitem (segment_header s) ''X0'', map fst (segment_data s),
                               x_final s)) seg,
            rest')))
     = Inr (Inr (PBool False),
            Some (Inr (PInt 0),
                  [[PFloat (Finite 0), PFloat (Finite 1)], [PFloat (Finite 0), PFloat (Finite 1)]],
                  Inl TypeError),
            two_rows)
   \<and> read_lines (single_X0_file ''One'') = Inl TypeError
   \<and> read_lines (single_X0_file ''No'') = Inl TypeError
   \<and> (\<forall>file_header sh n d c lines.
         segments_loop file_header
           \<lparr>segment_header = setitem sh ''X0'' (PInt n), segment_data = d,
            segment_comments = c\<rparr> lines
         = Inl TypeError)
   \<and> (\<forall>file_header sh f d c lines.
         segments_loop file_header
           \<lparr>segment_header = setitem sh ''X0'' (PFloat f), segment_data = d,
            segment_comments = c\<rparr> lines
         = Inl TypeError)"
proof (intro conjI allI)
  show "bind (read_file_header (single_X0_file ''One'')) (\<lambda>(fh, rest).
     bind (read_segment rest fh None PNone) (\<lambda>(seg, rest').
       Inr (getitem fh ''Multi_Headings'',
            map_option (\<lambda>s. (getitem (segment_header s) ''X0'', map fst (segment_data s),
                               x_final s)) seg,
            rest')))
     = Inr (Inr (PBool False),
            Some (Inr (PInt 0),
                  [[PFloat (Finite 0), PFloat (Finite 1)], [PFloat (Finite 0), PFloat (Finite 1)]],
                  Inl TypeError),
            two_rows)"
    by code_simp
  show "read_lines (single_X0_file ''One'') = Inl TypeError"
    by code_simp
  show "read_lines (single_X0_file ''No'') = Inl TypeError"
    by code_simp
  show "segments_loop file_header
           \<lparr>segment_header = setitem sh ''X0'' (PInt n), segment_data = d,
            segment_comments = c\<rparr> lines
         = Inl TypeError" for file_header sh n d c lines
    by (subst segments_loop.simps)
       (simp add: x_final_def getitem_setitem bind_def py_iter_def)
  show "segments_loop file_header
           \<lparr>segment_header = setitem sh ''X0'' (PFloat f), segment_data = d,
            segment_comments = c\<rparr> lines
         = Inl TypeError" for file_header sh f d c lines
    by (subst segments_loop.simps)
       (simp add: x_final_def getitem_setitem bind_def py_iter_def)
qed

end
